theory Spec2Isabelle
  imports Main "HOL-Library.Sublist"
begin

section \<open>JavaScript values\<close>

text \<open>
  The request body and the authenticated user are JavaScript objects whose properties hold
  arbitrary JSON values. An object is modelled by its property lookup: a property that is
  absent reads as \<open>JUndefined\<close>, as \<^verbatim>\<open>data.x\<close> does. Numbers are idealised to integers
  (only their truthiness matters below); nested objects are opaque.
\<close>

datatype jsval =
    JUndefined
  | JNull
  | JBool bool
  | JNum int
  | JStr string
  | JArr "jsval list"
  | JObj

type_synonym jsobject = "string \<Rightarrow> jsval"

text \<open>Truthiness, as \<^verbatim>\<open>!v\<close> and \<^verbatim>\<open>a || b\<close> test it.\<close>

fun truthy :: "jsval \<Rightarrow> bool" where
  "truthy JUndefined = False"
| "truthy JNull = False"
| "truthy (JBool b) = b"
| "truthy (JNum n) = (n \<noteq> 0)"
| "truthy (JStr s) = (s \<noteq> [])"
| "truthy (JArr vs) = True"
| "truthy JObj = True"

definition js_or :: "jsval \<Rightarrow> jsval \<Rightarrow> jsval" where
  "js_or a b = (if truthy a then a else b)"

text \<open>
  \<^verbatim>\<open>arr.includes(v)\<close> on an array of strings: the comparison is SameValueZero, so only a
  string value can be an element.
\<close>

fun includes_str :: "string list \<Rightarrow> jsval \<Rightarrow> bool" where
  "includes_str xs (JStr s) = (s \<in> set xs)"
| "includes_str xs v = False"

text \<open>
  \<^verbatim>\<open>Array.isArray(v) && v.some(f)\<close>: the right operand is evaluated for arrays only.
\<close>

fun isArray_and_some :: "(jsval \<Rightarrow> bool) \<Rightarrow> jsval \<Rightarrow> bool" where
  "isArray_and_some f (JArr vs) = list_ex f vs"
| "isArray_and_some f v = False"

text \<open>String conversion, as a template literal applies it to an interpolated value.\<close>

fun digits :: "nat \<Rightarrow> string" where
  "digits n = (if n < 10 then [char_of (48 + n)] else digits (n div 10) @ [char_of (48 + n mod 10)])"

fun toString :: "jsval \<Rightarrow> string"
  and join_elements :: "jsval list \<Rightarrow> string" where
  "toString JUndefined = ''undefined''"
| "toString JNull = ''null''"
| "toString (JBool b) = (if b then ''true'' else ''false'')"
| "toString (JNum n) = (if n < 0 then ''-'' @ digits (nat (- n)) else digits (nat n))"
| "toString (JStr s) = s"
| "toString (JArr vs) = join_elements vs"
| "toString JObj = ''[object Object]''"
| "join_elements [] = []"
| "join_elements (JUndefined # vs) = (if vs = [] then [] else '','' @ join_elements vs)"
| "join_elements (JNull # vs) = (if vs = [] then [] else '','' @ join_elements vs)"
| "join_elements (v # vs) = toString v @ (if vs = [] then [] else '','' @ join_elements vs)"

section \<open>Configuration: \<^verbatim>\<open>config/pajsm\<close>\<close>

definition VULNERABILITIES :: "(string \<times> string) list" where
  "VULNERABILITIES =
    [(''MENTAL_HEALTH_DISORDER'', ''mental_health_disorder''),
     (''INTELLECTUAL_DISABILITY'', ''intellectual_disability''),
     (''ASD'', ''asd''),
     (''SUBSTANCE_USE_DISORDER'', ''substance_use_disorder''),
     (''TRAUMATIC_BRAIN_INJURY'', ''traumatic_brain_injury'')]"

definition ABSOLUTE_EXCLUSIONS :: "string list" where
  "ABSOLUTE_EXCLUSIONS =
    [''death_resulting_offences'',
     ''attempted_or_conspired_death_offences'',
     ''superior_court_jurisdiction'',
     ''sexual_offences_against_minors'',
     ''transport_offences_causing_injury'',
     ''terrorism'',
     ''criminal_organization'',
     ''firearms_weapons_by_indictment'']"

definition SUMMARY_ELIGIBLE_EXCEPTIONS :: "string list" where
  "SUMMARY_ELIGIBLE_EXCEPTIONS =
    [''domestic_violence'',
     ''sexual_violence'',
     ''elder_abuse'']"

definition REFERRAL :: string where
  "REFERRAL = ''referral''"

definition PROSECUTOR_EVALUATION :: string where
  "PROSECUTOR_EVALUATION = ''prosecutor_evaluation''"

definition CLINICAL_ELIGIBILITY :: string where
  "CLINICAL_ELIGIBILITY = ''clinical_eligibility''"

definition INTERVENTION_PLAN :: string where
  "INTERVENTION_PLAN = ''intervention_plan''"

definition HEARING_FOLLOWUPS :: string where
  "HEARING_FOLLOWUPS = ''hearing_followups''"

definition PROGRAM_OUTCOME :: string where
  "PROGRAM_OUTCOME = ''program_outcome''"

definition PROGRAM_STAGES :: "string list" where
  "PROGRAM_STAGES =
    [REFERRAL,
     PROSECUTOR_EVALUATION,
     CLINICAL_ELIGIBILITY,
     INTERVENTION_PLAN,
     HEARING_FOLLOWUPS,
     PROGRAM_OUTCOME]"

section \<open>Eligibility: \<^verbatim>\<open>services/eligibilityService.js\<close>\<close>

definition VALID_VULNERABILITIES :: "string list" where
  "VALID_VULNERABILITIES = map snd VULNERABILITIES"

record verdict =
  eligible :: bool
  reasons :: "string list"

text \<open>The double quote that the reason templates put around the category.\<close>

definition quote :: string where
  "quote = [CHR 0x22]"

text \<open>
  \<^verbatim>\<open>checkEligibility(data)\<close> runs seven checks in sequence on the array \<open>reasons\<close>; each
  appends its message when it fails and none returns early. Every check of the source is
  one function on the accumulator here, in the source's order.
\<close>

definition check_vulnerability :: "jsobject \<Rightarrow> string list \<Rightarrow> string list" where
  "check_vulnerability data rs =
    (let hasVulnerability =
           isArray_and_some (includes_str VALID_VULNERABILITIES) (data ''vulnerabilities'')
     in if \<not> hasVulnerability
        then rs @ [''At least one recognized vulnerability is required'']
        else rs)"

definition check_absolute_exclusion :: "jsobject \<Rightarrow> string list \<Rightarrow> string list" where
  "check_absolute_exclusion data rs =
    (if includes_str ABSOLUTE_EXCLUSIONS (data ''offence_category'')
     then rs @ [''Offence category '' @ quote @ toString (data ''offence_category'') @ quote
                  @ '' is absolutely excluded from PAJ-SM+'']
     else rs)"

definition check_prosecution_mode :: "jsobject \<Rightarrow> string list \<Rightarrow> string list" where
  "check_prosecution_mode data rs =
    (if data ''prosecution_mode'' \<noteq> JStr ''summary''
     then rs @ [''Offence category '' @ quote @ toString (data ''offence_category'') @ quote
                  @ '' requires summary prosecution mode'']
     else rs)"

definition check_victim_consent :: "jsobject \<Rightarrow> string list \<Rightarrow> string list" where
  "check_victim_consent data rs =
    (if data ''victim_consent'' \<noteq> JBool True
     then rs @ [''Offence category '' @ quote @ toString (data ''offence_category'') @ quote
                  @ '' requires victim consent'']
     else rs)"

definition check_conditional_exclusion :: "jsobject \<Rightarrow> string list \<Rightarrow> string list" where
  "check_conditional_exclusion data rs =
    (if includes_str SUMMARY_ELIGIBLE_EXCEPTIONS (data ''offence_category'')
     then check_victim_consent data (check_prosecution_mode data rs)
     else rs)"

definition check_accepts_responsibility :: "jsobject \<Rightarrow> string list \<Rightarrow> string list" where
  "check_accepts_responsibility data rs =
    (if \<not> truthy (data ''accepts_responsibility'')
     then rs @ [''Accused must accept responsibility'']
     else rs)"

definition check_is_voluntary :: "jsobject \<Rightarrow> string list \<Rightarrow> string list" where
  "check_is_voluntary data rs =
    (if \<not> truthy (data ''is_voluntary'')
     then rs @ [''Participation must be voluntary'']
     else rs)"

definition check_waives_delay :: "jsobject \<Rightarrow> string list \<Rightarrow> string list" where
  "check_waives_delay data rs =
    (if \<not> truthy (data ''waives_delay'')
     then rs @ [''Accused must waive delay rights'']
     else rs)"

definition check_criminally_fit :: "jsobject \<Rightarrow> string list \<Rightarrow> string list" where
  "check_criminally_fit data rs =
    (if \<not> truthy (data ''criminally_fit'')
     then rs @ [''Accused must be criminally fit and responsible'']
     else rs)"

definition checkEligibility :: "jsobject \<Rightarrow> verdict" where
  "checkEligibility data =
    (let r0 = [];
         r1 = check_vulnerability data r0;
         r2 = check_absolute_exclusion data r1;
         r3 = check_conditional_exclusion data r2;
         r4 = check_accepts_responsibility data r3;
         r5 = check_is_voluntary data r4;
         r6 = check_waives_delay data r5;
         r7 = check_criminally_fit data r6
     in \<lparr>eligible = (length r7 = 0), reasons = r7\<rparr>)"

section \<open>The participant store\<close>

type_synonym timestamp = nat

text \<open>
  A row of \<^verbatim>\<open>pajsm_participants\<close>, column by column as the migration declares it
  (\<open>p_id\<close> is the column \<^verbatim>\<open>id\<close>). The columns filled from the request keep the value
  that was passed; \<open>stage\<close> is a \<^verbatim>\<open>VARCHAR NOT NULL\<close> without a \<^verbatim>\<open>CHECK\<close>, so any
  string; the three nullable columns \<open>enrolled_at\<close>, \<open>completed_at\<close> and \<open>outcome\<close> are
  options, \<open>None\<close> for \<^verbatim>\<open>NULL\<close>. Time is counted in ticks of a clock.
\<close>

record participant =
  p_id :: string
  referral_id :: jsval
  accused_name :: jsval
  district :: jsval
  vulnerabilities :: jsval
  diagnosed :: jsval
  offence_description :: jsval
  offence_category :: jsval
  prosecution_mode :: jsval
  accepts_responsibility :: jsval
  is_voluntary :: jsval
  waives_delay :: jsval
  criminally_fit :: jsval
  victim_consent :: jsval
  victim_consent_mode :: jsval
  stage :: string
  enrolled_at :: "timestamp option"
  completed_at :: "timestamp option"
  outcome :: "string option"
  created_at :: timestamp
  updated_at :: timestamp

text \<open>
  Rows of \<^verbatim>\<open>pajsm_intervention_plans\<close> and \<^verbatim>\<open>pajsm_follow_ups\<close>; the columns
  \<^verbatim>\<open>id\<close>, \<^verbatim>\<open>participant_id\<close>, \<^verbatim>\<open>notes\<close>, \<^verbatim>\<open>created_at\<close> and \<^verbatim>\<open>updated_at\<close> carry the
  prefix of their table.
\<close>

record intervention_plan =
  plan_id :: string
  plan_participant_id :: string
  plan_details :: jsval
  objectives :: jsval
  created_by :: jsval
  plan_created_at :: timestamp
  plan_updated_at :: timestamp

record follow_up =
  fu_id :: string
  fu_participant_id :: string
  follow_up_date :: jsval
  fu_notes :: jsval
  recorded_by :: jsval
  fu_created_at :: timestamp

record database =
  pajsm_participants :: "participant list"
  pajsm_intervention_plans :: "intervention_plan list"
  pajsm_follow_ups :: "follow_up list"

text \<open>
  What a call reads from outside: the application clock (\<^verbatim>\<open>new Date()\<close>), the clock of the
  database (\<^verbatim>\<open>NOW()\<close>), the next identifier \<^verbatim>\<open>uuidv4()\<close> returns, and the verdict of the
  database server on a row of \<^verbatim>\<open>pajsm_participants\<close> as far as the checks that are not
  modelled below go (the types and lengths of the columns, the primary and the foreign
  key).
\<close>

record world =
  date_now :: timestamp
  sql_now :: timestamp
  uuidv4 :: string
  server_accepts :: "participant \<Rightarrow> bool"

text \<open>
  What a call can throw: an \<^verbatim>\<open>Error\<close> with the properties the service sets on it, or the
  error with which \<^verbatim>\<open>pool.query\<close> rejects when the server refuses a statement; that one
  carries no \<^verbatim>\<open>statusCode\<close>.
\<close>

record js_error =
  message :: string
  statusCode :: nat
  err_reasons :: "string list option"

datatype thrown = ServiceError js_error | DatabaseError

text \<open>\<^verbatim>\<open>rows[0]\<close>: the first row of a result, \<open>None\<close> for \<^verbatim>\<open>undefined\<close>.\<close>

definition rows0 :: "'a list \<Rightarrow> 'a option" where
  "rows0 rows = (case rows of [] \<Rightarrow> None | r # rest \<Rightarrow> Some r)"

text \<open>
  Modelled from the spec: the connection pool of \<^verbatim>\<open>config/db\<close>, on which every service
  calls \<^verbatim>\<open>pool.query\<close>, is not among the sources; the spec treats it as the persistence
  collaborator that looks a participant up by identity. \<^verbatim>\<open>SELECT * FROM
  pajsm_participants WHERE id = $1\<close> returns the rows with that identifier.
\<close>

definition select_participant :: "string \<Rightarrow> database \<Rightarrow> participant list" where
  "select_participant i db = filter (\<lambda>r. p_id r = i) (pajsm_participants db)"

text \<open>The assignments the \<^verbatim>\<open>UPDATE\<close> statements of the service put after \<^verbatim>\<open>SET\<close>.\<close>

datatype assignment =
    SetStage string
  | SetUpdatedAt timestamp
  | SetEnrolledAt timestamp
  | SetCompletedAt timestamp
  | SetOutcome string
  | SetVictimConsent bool

fun assign :: "assignment \<Rightarrow> participant \<Rightarrow> participant" where
  "assign (SetStage s) r = r\<lparr>stage := s\<rparr>"
| "assign (SetUpdatedAt t) r = r\<lparr>updated_at := t\<rparr>"
| "assign (SetEnrolledAt t) r = r\<lparr>enrolled_at := Some t\<rparr>"
| "assign (SetCompletedAt t) r = r\<lparr>completed_at := Some t\<rparr>"
| "assign (SetOutcome s) r = r\<lparr>outcome := Some s\<rparr>"
| "assign (SetVictimConsent b) r = r\<lparr>victim_consent := JBool b\<rparr>"

text \<open>
  Modelled from the spec: the persistence commit of the missing \<^verbatim>\<open>config/db\<close> pool.
  \<^verbatim>\<open>UPDATE pajsm_participants SET ... WHERE id = $n RETURNING *\<close> applies the assignments
  to every row with that identifier and returns the rows it changed; the statement is
  taken to be accepted by the server.
\<close>

definition update_participant ::
  "assignment list \<Rightarrow> string \<Rightarrow> database \<Rightarrow> participant list \<times> database" where
  "update_participant updates i db =
    (map (fold assign updates) (select_participant i db),
     db\<lparr>pajsm_participants :=
          map (\<lambda>r. if p_id r = i then fold assign updates r else r) (pajsm_participants db)\<rparr>)"

text \<open>
  The constraints the migration declares on \<^verbatim>\<open>pajsm_participants\<close>. The driver sends
  \<^verbatim>\<open>undefined\<close> and \<^verbatim>\<open>null\<close> as \<^verbatim>\<open>NULL\<close>. \<^verbatim>\<open>accused_name\<close> and \<^verbatim>\<open>vulnerabilities\<close> are
  \<^verbatim>\<open>NOT NULL\<close> (so are \<^verbatim>\<open>id\<close> and \<^verbatim>\<open>stage\<close>, which are strings here). A \<^verbatim>\<open>CHECK\<close> passes
  on \<^verbatim>\<open>NULL\<close> and otherwise wants one of the listed values: \<^verbatim>\<open>prosecution_mode IN
  ('summary', 'indictment')\<close> and \<^verbatim>\<open>victim_consent_mode IN ('written', 'verbal')\<close>. The
  third \<^verbatim>\<open>CHECK\<close> is the one on \<open>outcome\<close>, a column that \<^verbatim>\<open>enroll\<close> leaves \<^verbatim>\<open>NULL\<close>.
\<close>

definition sql_null :: "jsval \<Rightarrow> bool" where
  "sql_null v = (v = JUndefined \<or> v = JNull)"

definition participant_not_null :: "participant \<Rightarrow> bool" where
  "participant_not_null row =
    (\<not> sql_null (accused_name row) \<and> \<not> sql_null (vulnerabilities row))"

definition participant_checks :: "participant \<Rightarrow> bool" where
  "participant_checks row =
    ((sql_null (prosecution_mode row)
        \<or> prosecution_mode row = JStr ''summary''
        \<or> prosecution_mode row = JStr ''indictment'')
     \<and> (sql_null (victim_consent_mode row)
        \<or> victim_consent_mode row = JStr ''written''
        \<or> victim_consent_mode row = JStr ''verbal'')
     \<and> (outcome row = None
        \<or> outcome row = Some ''completed''
        \<or> outcome row = Some ''withdrawn''
        \<or> outcome row = Some ''returned_to_court''))"

definition accepts_participant :: "world \<Rightarrow> participant \<Rightarrow> bool" where
  "accepts_participant w row =
    (participant_not_null row \<and> participant_checks row \<and> server_accepts w row)"

text \<open>
  Modelled from the spec: the persistence commit of the missing \<^verbatim>\<open>config/db\<close> pool.
  \<^verbatim>\<open>INSERT INTO pajsm_participants ... RETURNING *\<close> adds the row and returns it when the
  row meets the declared constraints and the server accepts it otherwise; else
  \<^verbatim>\<open>pool.query\<close> rejects and the table is as before.
\<close>

definition insert_participant ::
  "world \<Rightarrow> participant \<Rightarrow> database \<Rightarrow> (thrown + participant list) \<times> database" where
  "insert_participant w row db =
    (if accepts_participant w row
     then (Inr [row], db\<lparr>pajsm_participants := pajsm_participants db @ [row]\<rparr>)
     else (Inl DatabaseError, db))"



section \<open>The stage engine: \<^verbatim>\<open>services/pajsmService.js\<close>\<close>

text \<open>
  Every operation returns its result, or what it throws, together with the database it
  leaves behind. \<^verbatim>\<open>enroll\<close> does not catch the rejection of its \<^verbatim>\<open>INSERT\<close>: the
  \<^verbatim>\<open>await\<close> throws it on.
\<close>

definition enroll ::
  "jsobject \<Rightarrow> jsobject \<Rightarrow> world \<Rightarrow> database \<Rightarrow> (thrown + participant option) \<times> database" where
  "enroll data user w db =
    (let result = checkEligibility data
     in if \<not> eligible result
        then (Inl (ServiceError
                     \<lparr>message = ''Participant is not eligible for PAJ-SM+'',
                      statusCode = 400,
                      err_reasons = Some (reasons result)\<rparr>), db)
        else
          (let id = uuidv4 w;
               (query, db') =
                 insert_participant w
                   \<lparr>p_id = id,
                    referral_id = js_or (data ''referral_id'') JNull,
                    accused_name = data ''accused_name'',
                    district = js_or (data ''district'') JNull,
                    vulnerabilities = data ''vulnerabilities'',
                    diagnosed = js_or (data ''diagnosed'') (JBool False),
                    offence_description = js_or (data ''offence_description'') JNull,
                    offence_category = js_or (data ''offence_category'') JNull,
                    prosecution_mode = js_or (data ''prosecution_mode'') JNull,
                    accepts_responsibility = data ''accepts_responsibility'',
                    is_voluntary = data ''is_voluntary'',
                    waives_delay = data ''waives_delay'',
                    criminally_fit = data ''criminally_fit'',
                    victim_consent = js_or (data ''victim_consent'') JNull,
                    victim_consent_mode = js_or (data ''victim_consent_mode'') JNull,
                    stage = REFERRAL,
                    enrolled_at = None,
                    completed_at = None,
                    outcome = None,
                    created_at = sql_now w,
                    updated_at = sql_now w\<rparr> db
           in case query of
                Inl err \<Rightarrow> (Inl err, db')
              | Inr rows \<Rightarrow> (Inr (rows0 rows), db')))"

definition getById :: "string \<Rightarrow> jsobject \<Rightarrow> database \<Rightarrow> js_error + participant" where
  "getById i user db =
    (let rows = select_participant i db
     in case rows0 rows of
          None \<Rightarrow> Inl \<lparr>message = ''PAJ-SM+ participant not found'',
                        statusCode = 404,
                        err_reasons = None\<rparr>
        | Some r \<Rightarrow> Inr r)"

text \<open>\<^verbatim>\<open>arr.indexOf(s)\<close>: the first position of \<open>s\<close>, or \<open>-1\<close>.\<close>

fun indexOf :: "string list \<Rightarrow> string \<Rightarrow> int" where
  "indexOf [] s = - 1"
| "indexOf (x # xs) s =
    (if x = s then 0 else (let k = indexOf xs s in if k = - 1 then - 1 else k + 1))"

definition advanceStage ::
  "string \<Rightarrow> jsobject \<Rightarrow> world \<Rightarrow> database \<Rightarrow> (js_error + participant option) \<times> database" where
  "advanceStage i user w db =
    (case getById i user db of
       Inl err \<Rightarrow> (Inl err, db)
     | Inr participant \<Rightarrow>
        (let currentIndex = indexOf PROGRAM_STAGES (stage participant)
         in if currentIndex = - 1 \<or> currentIndex \<ge> int (length PROGRAM_STAGES) - 1
            then (Inl \<lparr>message = ''Cannot advance beyond the final stage'',
                        statusCode = 400,
                        err_reasons = None\<rparr>, db)
            else
              (let nextStage = PROGRAM_STAGES ! nat (currentIndex + 1);
                   updates0 = [SetStage nextStage, SetUpdatedAt (sql_now w)];
                   updates1 =
                     (if nextStage = PROSECUTOR_EVALUATION \<and> enrolled_at participant = None
                      then updates0 @ [SetEnrolledAt (date_now w)]
                      else updates0);
                   updates2 =
                     (if nextStage = PROGRAM_OUTCOME
                      then updates1 @ [SetCompletedAt (date_now w), SetOutcome ''completed'']
                      else updates1);
                   (rows, db') = update_participant updates2 i db
               in (Inr (rows0 rows), db'))))"

text \<open>
  \<^verbatim>\<open>if (participant.outcome)\<close>: a \<^verbatim>\<open>NULL\<close> column reads as \<^verbatim>\<open>null\<close>, and of the strings
  only the empty one is falsy.
\<close>

definition outcome_truthy :: "string option \<Rightarrow> bool" where
  "outcome_truthy v = (case v of None \<Rightarrow> False | Some s \<Rightarrow> s \<noteq> [])"

definition withdraw ::
  "string \<Rightarrow> jsval \<Rightarrow> jsobject \<Rightarrow> world \<Rightarrow> database
    \<Rightarrow> (js_error + participant option) \<times> database" where
  "withdraw i reason user w db =
    (case getById i user db of
       Inl err \<Rightarrow> (Inl err, db)
     | Inr participant \<Rightarrow>
        if outcome_truthy (outcome participant)
        then (Inl \<lparr>message = ''Participant already has a final outcome'',
                    statusCode = 400,
                    err_reasons = None\<rparr>, db)
        else
          (let (rows, db') =
                 update_participant
                   [SetOutcome ''withdrawn'', SetCompletedAt (sql_now w), SetUpdatedAt (sql_now w)]
                   i db
           in (Inr (rows0 rows), db')))"

definition revokeVictimConsent ::
  "string \<Rightarrow> jsobject \<Rightarrow> world \<Rightarrow> database \<Rightarrow> (js_error + participant option) \<times> database" where
  "revokeVictimConsent i user w db =
    (case getById i user db of
       Inl err \<Rightarrow> (Inl err, db)
     | Inr participant \<Rightarrow>
        if outcome_truthy (outcome participant)
        then (Inl \<lparr>message = ''Participant already has a final outcome'',
                    statusCode = 400,
                    err_reasons = None\<rparr>, db)
        else
          (let (rows, db') =
                 update_participant
                   [SetVictimConsent False, SetOutcome ''returned_to_court'',
                    SetCompletedAt (sql_now w), SetUpdatedAt (sql_now w)]
                   i db
           in (Inr (rows0 rows), db')))"



section \<open>Auxiliary notions for the stage engine\<close>

text \<open>
  The list of assignments \<^verbatim>\<open>advanceStage\<close> builds for a participant that moves to
  \<open>nextStage\<close>, the row and the database that result, and a sequence of calls made one
  after the other, each with the clocks of its moment. \<open>OUTCOMES\<close> are the values the
  \<^verbatim>\<open>CHECK\<close> constraint of the migration admits in the \<open>outcome\<close> column.
\<close>

definition advance_assignments :: "world \<Rightarrow> participant \<Rightarrow> string \<Rightarrow> assignment list" where
  "advance_assignments w participant nextStage =
    [SetStage nextStage, SetUpdatedAt (sql_now w)]
    @ (if nextStage = PROSECUTOR_EVALUATION \<and> enrolled_at participant = None
       then [SetEnrolledAt (date_now w)] else [])
    @ (if nextStage = PROGRAM_OUTCOME
       then [SetCompletedAt (date_now w), SetOutcome ''completed''] else [])"

definition advanced :: "world \<Rightarrow> participant \<Rightarrow> participant" where
  "advanced w p =
    fold assign
      (advance_assignments w p (PROGRAM_STAGES ! nat (indexOf PROGRAM_STAGES (stage p) + 1))) p"

definition advanced_db :: "string \<Rightarrow> world \<Rightarrow> participant \<Rightarrow> database \<Rightarrow> database" where
  "advanced_db i w p db =
    snd (update_participant
      (advance_assignments w p (PROGRAM_STAGES ! nat (indexOf PROGRAM_STAGES (stage p) + 1)))
      i db)"

fun advance_all ::
  "string \<Rightarrow> jsobject \<Rightarrow> world list \<Rightarrow> database
    \<Rightarrow> (js_error + participant option) list \<times> database" where
  "advance_all i user [] db = ([], db)"
| "advance_all i user (w # ws) db =
    (let (r, db1) = advanceStage i user w db;
         (rs, db2) = advance_all i user ws db1
     in (r # rs, db2))"

definition OUTCOMES :: "string list" where
  "OUTCOMES = [''completed'', ''withdrawn'', ''returned_to_court'']"

text \<open>The row \<^verbatim>\<open>enroll\<close> sends to the database for a request body.\<close>

definition enroll_row :: "jsobject \<Rightarrow> world \<Rightarrow> participant" where
  "enroll_row data w =
    \<lparr>p_id = uuidv4 w,
     referral_id = js_or (data ''referral_id'') JNull,
     accused_name = data ''accused_name'',
     district = js_or (data ''district'') JNull,
     vulnerabilities = data ''vulnerabilities'',
     diagnosed = js_or (data ''diagnosed'') (JBool False),
     offence_description = js_or (data ''offence_description'') JNull,
     offence_category = js_or (data ''offence_category'') JNull,
     prosecution_mode = js_or (data ''prosecution_mode'') JNull,
     accepts_responsibility = data ''accepts_responsibility'',
     is_voluntary = data ''is_voluntary'',
     waives_delay = data ''waives_delay'',
     criminally_fit = data ''criminally_fit'',
     victim_consent = js_or (data ''victim_consent'') JNull,
     victim_consent_mode = js_or (data ''victim_consent_mode'') JNull,
     stage = REFERRAL,
     enrolled_at = None,
     completed_at = None,
     outcome = None,
     created_at = sql_now w,
     updated_at = sql_now w\<rparr>"

section \<open>Concrete inputs\<close>

text \<open>
  The request bodies, clocks, participants and databases on which the properties below are
  exercised. \<open>tick n\<close> is the moment of the \<open>n\<close>-th request: the application clock
  reads \<open>10 * n\<close> and the database clock \<open>10 * n + 1\<close>, and the server has no objection of
  its own to a row. \<open>referral_participant\<close> is the row
  that enrolling \<open>theft_data\<close> creates, and \<open>db_of p\<close> the database that holds just \<open>p\<close>.
\<close>

definition empty_object :: jsobject where
  "empty_object = (\<lambda>k. JUndefined)"

definition max_failing_data :: jsobject where
  "max_failing_data =
     empty_object
       (''vulnerabilities'' := JArr [],
        ''offence_category'' := JStr ''terrorism'',
        ''prosecution_mode'' := JStr ''indictment'',
        ''accepts_responsibility'' := JBool False,
        ''is_voluntary'' := JBool False,
        ''waives_delay'' := JBool False,
        ''criminally_fit'' := JBool False)"

definition domestic_summary_data :: jsobject where
  "domestic_summary_data =
     empty_object
       (''vulnerabilities'' := JArr [JStr ''mental_health_disorder''],
        ''offence_category'' := JStr ''domestic_violence'',
        ''prosecution_mode'' := JStr ''summary'',
        ''victim_consent'' := JBool True,
        ''accepts_responsibility'' := JBool True,
        ''is_voluntary'' := JBool True,
        ''waives_delay'' := JBool True,
        ''criminally_fit'' := JBool True)"

definition domestic_indictment_data :: jsobject where
  "domestic_indictment_data =
     domestic_summary_data (''prosecution_mode'' := JStr ''indictment'')"

definition domestic_no_consent_data :: jsobject where
  "domestic_no_consent_data =
     domestic_summary_data (''victim_consent'' := JUndefined)"

definition tick :: "nat \<Rightarrow> world" where
  "tick n =
    \<lparr>date_now = 10 * n, sql_now = 10 * n + 1, uuidv4 = ''p-1'',
     server_accepts = (\<lambda>row. True)\<rparr>"

definition admin_user :: jsobject where
  "admin_user = empty_object (''id'' := JStr ''u-1'', ''role'' := JStr ''admin'')"

definition theft_data :: jsobject where
  "theft_data =
     empty_object
       (''accused_name'' := JStr ''A. Accused'',
        ''vulnerabilities'' := JArr [JStr ''mental_health_disorder''],
        ''offence_category'' := JStr ''theft'',
        ''prosecution_mode'' := JStr ''summary'',
        ''accepts_responsibility'' := JBool True,
        ''is_voluntary'' := JBool True,
        ''waives_delay'' := JBool True,
        ''criminally_fit'' := JBool True)"

definition no_name_data :: jsobject where
  "no_name_data =
     empty_object
       (''vulnerabilities'' := JArr [JStr ''asd''],
        ''offence_category'' := JStr ''theft'',
        ''accepts_responsibility'' := JBool True,
        ''is_voluntary'' := JBool True,
        ''waives_delay'' := JBool True,
        ''criminally_fit'' := JBool True)"

definition referral_participant :: participant where
  "referral_participant =
     \<lparr>p_id = ''p-1'',
      referral_id = JNull,
      accused_name = JStr ''A. Accused'',
      district = JNull,
      vulnerabilities = JArr [JStr ''mental_health_disorder''],
      diagnosed = JBool False,
      offence_description = JNull,
      offence_category = JStr ''theft'',
      prosecution_mode = JStr ''summary'',
      accepts_responsibility = JBool True,
      is_voluntary = JBool True,
      waives_delay = JBool True,
      criminally_fit = JBool True,
      victim_consent = JNull,
      victim_consent_mode = JNull,
      stage = ''referral'',
      enrolled_at = None,
      completed_at = None,
      outcome = None,
      created_at = 1,
      updated_at = 1\<rparr>"

definition empty_db :: database where
  "empty_db = \<lparr>pajsm_participants = [], pajsm_intervention_plans = [], pajsm_follow_ups = []\<rparr>"

definition db_of :: "participant \<Rightarrow> database" where
  "db_of p = \<lparr>pajsm_participants = [p], pajsm_intervention_plans = [], pajsm_follow_ups = []\<rparr>"

definition withdrawn_plan_participant :: participant where
  "withdrawn_plan_participant =
     referral_participant
       \<lparr>stage := ''intervention_plan'', enrolled_at := Some 10,
        completed_at := Some 41, outcome := Some ''withdrawn'', updated_at := 41\<rparr>"




definition pe_participant :: participant where
  "pe_participant =
     referral_participant
       \<lparr>stage := ''prosecutor_evaluation'', updated_at := 11, enrolled_at := Some 10\<rparr>"

definition withdrawn_participant :: participant where
  "withdrawn_participant =
     referral_participant
       \<lparr>outcome := Some ''withdrawn'', completed_at := Some 31, updated_at := 31\<rparr>"

section \<open>Properties of the eligibility evaluator\<close>

text \<open>Each check only ever appends to the accumulator it is given.\<close>

lemma check_absolute_exclusion_append:
  "check_absolute_exclusion data rs = rs @ check_absolute_exclusion data []"
  by (simp add: check_absolute_exclusion_def)

lemma check_conditional_exclusion_append:
  "check_conditional_exclusion data rs = rs @ check_conditional_exclusion data []"
  by (simp add: check_conditional_exclusion_def check_victim_consent_def
      check_prosecution_mode_def)

lemma check_accepts_responsibility_append:
  "check_accepts_responsibility data rs = rs @ check_accepts_responsibility data []"
  by (simp add: check_accepts_responsibility_def)

lemma check_is_voluntary_append:
  "check_is_voluntary data rs = rs @ check_is_voluntary data []"
  by (simp add: check_is_voluntary_def)

lemma check_waives_delay_append:
  "check_waives_delay data rs = rs @ check_waives_delay data []"
  by (simp add: check_waives_delay_def)

lemma check_criminally_fit_append:
  "check_criminally_fit data rs = rs @ check_criminally_fit data []"
  by (simp add: check_criminally_fit_def)

text \<open>So the reasons are the concatenation of what the seven checks report one by one.\<close>

lemma reasons_checkEligibility:
  "reasons (checkEligibility data) =
     check_vulnerability data []
     @ check_absolute_exclusion data []
     @ check_conditional_exclusion data []
     @ check_accepts_responsibility data []
     @ check_is_voluntary data []
     @ check_waives_delay data []
     @ check_criminally_fit data []"
  unfolding checkEligibility_def Let_def
  apply (simp only: verdict.simps)
  apply (subst check_criminally_fit_append)
  apply (subst check_waives_delay_append)
  apply (subst check_is_voluntary_append)
  apply (subst check_accepts_responsibility_append)
  apply (subst check_conditional_exclusion_append)
  apply (subst check_absolute_exclusion_append)
  apply (simp only: append_assoc)
  done

lemma eligible_checkEligibility:
  "eligible (checkEligibility data) = (reasons (checkEligibility data) = [])"
  by (simp only: checkEligibility_def Let_def verdict.simps length_0_conv)

lemma exclusion_sets_disjoint:
  "c \<in> set ABSOLUTE_EXCLUSIONS \<Longrightarrow> c \<notin> set SUMMARY_ELIGIBLE_EXCEPTIONS"
  unfolding ABSOLUTE_EXCLUSIONS_def SUMMARY_ELIGIBLE_EXCEPTIONS_def by auto

lemma check_vulnerability_valid:
  "data ''vulnerabilities'' = JArr vs \<Longrightarrow> JStr v \<in> set vs \<Longrightarrow> v \<in> set VALID_VULNERABILITIES
    \<Longrightarrow> check_vulnerability data [] = []"
  by (auto simp add: check_vulnerability_def list_ex_iff intro!: bexI [of _ "JStr v"])

text \<open>
  C3. Whatever the input, the verdict's \<open>eligible\<close> flag is true exactly when its list of
  reasons is empty.
\<close>

theorem checkEligibility_eligible_iff_no_reasons:
  "eligible (checkEligibility data) = (reasons (checkEligibility data) = [])"
  by (simp only: checkEligibility_def Let_def verdict.simps length_0_conv)

text \<open>
  C4. A maximally failing input (an empty list of vulnerabilities, an offence category of the
  absolute-exclusion set, prosecution by indictment, all four attestations false) is not
  eligible and collects at least five reasons: exactly six, one for each failing check. The
  category is outside the summary-eligible exceptions, so the conditional check is skipped
  and contributes nothing.
\<close>

theorem maximally_failing_input:
  assumes vul: "data ''vulnerabilities'' = JArr []"
    and cat: "data ''offence_category'' = JStr c"
    and excl: "c \<in> set ABSOLUTE_EXCLUSIONS"
    and mode: "data ''prosecution_mode'' = JStr ''indictment''"
    and resp: "data ''accepts_responsibility'' = JBool False"
    and vol: "data ''is_voluntary'' = JBool False"
    and delay: "data ''waives_delay'' = JBool False"
    and fit: "data ''criminally_fit'' = JBool False"
  shows "eligible (checkEligibility data) = False
       \<and> 5 \<le> length (reasons (checkEligibility data))
       \<and> c \<notin> set SUMMARY_ELIGIBLE_EXCEPTIONS
       \<and> check_conditional_exclusion data [] = []
       \<and> reasons (checkEligibility data) =
           [''At least one recognized vulnerability is required'',
            ''Offence category '' @ quote @ c @ quote @ '' is absolutely excluded from PAJ-SM+'',
            ''Accused must accept responsibility'',
            ''Participation must be voluntary'',
            ''Accused must waive delay rights'',
            ''Accused must be criminally fit and responsible'']"
proof -
  have nosum: "c \<notin> set SUMMARY_ELIGIBLE_EXCEPTIONS"
    using excl by (rule exclusion_sets_disjoint)
  have r1: "check_vulnerability data [] = [''At least one recognized vulnerability is required'']"
    by (simp add: check_vulnerability_def vul)
  have r2: "check_absolute_exclusion data [] =
      [''Offence category '' @ quote @ c @ quote @ '' is absolutely excluded from PAJ-SM+'']"
    by (simp add: check_absolute_exclusion_def cat excl)
  have r3: "check_conditional_exclusion data [] = []"
    using nosum by (simp add: check_conditional_exclusion_def cat)
  have r4: "check_accepts_responsibility data [] = [''Accused must accept responsibility'']"
    by (simp add: check_accepts_responsibility_def resp)
  have r5: "check_is_voluntary data [] = [''Participation must be voluntary'']"
    by (simp add: check_is_voluntary_def vol)
  have r6: "check_waives_delay data [] = [''Accused must waive delay rights'']"
    by (simp add: check_waives_delay_def delay)
  have r7: "check_criminally_fit data [] = [''Accused must be criminally fit and responsible'']"
    by (simp add: check_criminally_fit_def fit)
  have rs: "reasons (checkEligibility data) =
           [''At least one recognized vulnerability is required'',
            ''Offence category '' @ quote @ c @ quote @ '' is absolutely excluded from PAJ-SM+'',
            ''Accused must accept responsibility'',
            ''Participation must be voluntary'',
            ''Accused must waive delay rights'',
            ''Accused must be criminally fit and responsible'']"
    unfolding reasons_checkEligibility r1 r2 r3 r4 r5 r6 r7 by simp
  show ?thesis
    unfolding eligible_checkEligibility unfolding rs using nosum r3 by simp
qed

theorem maximally_failing_input_witness:
  "max_failing_data ''vulnerabilities'' = JArr []
   \<and> max_failing_data ''offence_category'' = JStr ''terrorism''
   \<and> ''terrorism'' \<in> set ABSOLUTE_EXCLUSIONS
   \<and> max_failing_data ''prosecution_mode'' = JStr ''indictment''
   \<and> max_failing_data ''accepts_responsibility'' = JBool False
   \<and> max_failing_data ''is_voluntary'' = JBool False
   \<and> max_failing_data ''waives_delay'' = JBool False
   \<and> max_failing_data ''criminally_fit'' = JBool False
   \<and> eligible (checkEligibility max_failing_data) = False
   \<and> length (reasons (checkEligibility max_failing_data)) = 6"
  using maximally_failing_input [of max_failing_data "''terrorism''"]
  by (simp add: max_failing_data_def empty_object_def ABSOLUTE_EXCLUSIONS_def)

text \<open>
  C5. For an input whose offence category is a summary-eligible exception: with summary
  prosecution, victim consent strictly \<open>true\<close>, a valid vulnerability and four truthy
  attestations the verdict is eligible; with prosecution by indictment and everything else
  the same it is not eligible, the one reason being the one that mentions
  "summary prosecution mode"; and whenever the victim's consent is anything but the boolean
  \<open>true\<close> the reason naming the consent requirement is among the reasons.
\<close>

theorem summary_eligible_exception_categories:
  assumes cat: "data ''offence_category'' = JStr c"
    and exc: "c \<in> set SUMMARY_ELIGIBLE_EXCEPTIONS"
  shows
    "(data ''prosecution_mode'' = JStr ''summary''
        \<and> data ''victim_consent'' = JBool True
        \<and> data ''vulnerabilities'' = JArr vs \<and> JStr v \<in> set vs \<and> v \<in> set VALID_VULNERABILITIES
        \<and> truthy (data ''accepts_responsibility'') \<and> truthy (data ''is_voluntary'')
        \<and> truthy (data ''waives_delay'') \<and> truthy (data ''criminally_fit'')
      \<longrightarrow> eligible (checkEligibility data) = True)
     \<and> (data ''prosecution_mode'' = JStr ''indictment''
        \<and> data ''victim_consent'' = JBool True
        \<and> data ''vulnerabilities'' = JArr vs \<and> JStr v \<in> set vs \<and> v \<in> set VALID_VULNERABILITIES
        \<and> truthy (data ''accepts_responsibility'') \<and> truthy (data ''is_voluntary'')
        \<and> truthy (data ''waives_delay'') \<and> truthy (data ''criminally_fit'')
      \<longrightarrow> eligible (checkEligibility data) = False
        \<and> reasons (checkEligibility data) =
            [''Offence category '' @ quote @ c @ quote @ '' requires summary prosecution mode'']
        \<and> (\<exists>r \<in> set (reasons (checkEligibility data)).
              sublist ''summary prosecution mode'' r))
     \<and> (data ''victim_consent'' \<noteq> JBool True
      \<longrightarrow> ''Offence category '' @ quote @ c @ quote @ '' requires victim consent''
            \<in> set (reasons (checkEligibility data)))"
proof (intro conjI impI)
  have notabs: "c \<notin> set ABSOLUTE_EXCLUSIONS"
    using exc exclusion_sets_disjoint by blast
  have a: "check_absolute_exclusion data [] = []"
    using notabs by (simp add: check_absolute_exclusion_def cat)
  {
    assume h: "data ''prosecution_mode'' = JStr ''summary''
        \<and> data ''victim_consent'' = JBool True
        \<and> data ''vulnerabilities'' = JArr vs \<and> JStr v \<in> set vs \<and> v \<in> set VALID_VULNERABILITIES
        \<and> truthy (data ''accepts_responsibility'') \<and> truthy (data ''is_voluntary'')
        \<and> truthy (data ''waives_delay'') \<and> truthy (data ''criminally_fit'')"
    have v: "check_vulnerability data [] = []"
      using h check_vulnerability_valid by blast
    have c1: "check_conditional_exclusion data [] = []"
      using h exc by (simp add: check_conditional_exclusion_def check_victim_consent_def
          check_prosecution_mode_def cat)
    have r: "check_accepts_responsibility data [] = []"
      using h by (simp add: check_accepts_responsibility_def)
    have vo: "check_is_voluntary data [] = []"
      using h by (simp add: check_is_voluntary_def)
    have w: "check_waives_delay data [] = []"
      using h by (simp add: check_waives_delay_def)
    have f: "check_criminally_fit data [] = []"
      using h by (simp add: check_criminally_fit_def)
    show "eligible (checkEligibility data) = True"
      unfolding eligible_checkEligibility reasons_checkEligibility v a c1 r vo w f by simp
  }
  {
    assume h: "data ''prosecution_mode'' = JStr ''indictment''
        \<and> data ''victim_consent'' = JBool True
        \<and> data ''vulnerabilities'' = JArr vs \<and> JStr v \<in> set vs \<and> v \<in> set VALID_VULNERABILITIES
        \<and> truthy (data ''accepts_responsibility'') \<and> truthy (data ''is_voluntary'')
        \<and> truthy (data ''waives_delay'') \<and> truthy (data ''criminally_fit'')"
    have v: "check_vulnerability data [] = []"
      using h check_vulnerability_valid by blast
    have c2: "check_conditional_exclusion data [] =
        [''Offence category '' @ quote @ c @ quote @ '' requires summary prosecution mode'']"
      using h exc by (simp add: check_conditional_exclusion_def check_victim_consent_def
          check_prosecution_mode_def cat)
    have r: "check_accepts_responsibility data [] = []"
      using h by (simp add: check_accepts_responsibility_def)
    have vo: "check_is_voluntary data [] = []"
      using h by (simp add: check_is_voluntary_def)
    have w: "check_waives_delay data [] = []"
      using h by (simp add: check_waives_delay_def)
    have f: "check_criminally_fit data [] = []"
      using h by (simp add: check_criminally_fit_def)
    show rs: "reasons (checkEligibility data) =
        [''Offence category '' @ quote @ c @ quote @ '' requires summary prosecution mode'']"
      unfolding reasons_checkEligibility v a c2 r vo w f by simp
    show "eligible (checkEligibility data) = False"
      unfolding eligible_checkEligibility rs by simp
    have "sublist ''summary prosecution mode''
            (''Offence category '' @ quote @ c @ quote @ '' requires summary prosecution mode'')"
      using sublist_appendI [of "''summary prosecution mode''"
          "''Offence category '' @ quote @ c @ quote @ '' requires ''" "[]"]
      by simp
    then show "\<exists>r \<in> set (reasons (checkEligibility data)).
              sublist ''summary prosecution mode'' r"
      unfolding rs by simp
  }
  {
    assume nc: "data ''victim_consent'' \<noteq> JBool True"
    have "''Offence category '' @ quote @ c @ quote @ '' requires victim consent''
        \<in> set (check_conditional_exclusion data [])"
      using nc exc by (simp add: check_conditional_exclusion_def check_victim_consent_def
          check_prosecution_mode_def cat)
    then show "''Offence category '' @ quote @ c @ quote @ '' requires victim consent''
            \<in> set (reasons (checkEligibility data))"
      unfolding reasons_checkEligibility by simp
  }
qed

theorem summary_eligible_exception_categories_witness:
  "''domestic_violence'' \<in> set SUMMARY_ELIGIBLE_EXCEPTIONS
   \<and> domestic_summary_data ''offence_category'' = JStr ''domestic_violence''
   \<and> domestic_summary_data ''prosecution_mode'' = JStr ''summary''
   \<and> domestic_summary_data ''victim_consent'' = JBool True
   \<and> eligible (checkEligibility domestic_summary_data) = True
   \<and> domestic_indictment_data ''offence_category'' = JStr ''domestic_violence''
   \<and> domestic_indictment_data ''prosecution_mode'' = JStr ''indictment''
   \<and> domestic_indictment_data ''victim_consent'' = JBool True
   \<and> eligible (checkEligibility domestic_indictment_data) = False
   \<and> reasons (checkEligibility domestic_indictment_data) =
       [''Offence category '' @ quote @ ''domestic_violence'' @ quote
          @ '' requires summary prosecution mode'']
   \<and> domestic_no_consent_data ''offence_category'' = JStr ''domestic_violence''
   \<and> domestic_no_consent_data ''victim_consent'' \<noteq> JBool True
   \<and> ''Offence category '' @ quote @ ''domestic_violence'' @ quote @ '' requires victim consent''
       \<in> set (reasons (checkEligibility domestic_no_consent_data))"
  using
    summary_eligible_exception_categories [of domestic_summary_data "''domestic_violence''"
      "[JStr ''mental_health_disorder'']" "''mental_health_disorder''"]
    summary_eligible_exception_categories [of domestic_indictment_data "''domestic_violence''"
      "[JStr ''mental_health_disorder'']" "''mental_health_disorder''"]
    summary_eligible_exception_categories [of domestic_no_consent_data "''domestic_violence''"
      "[JStr ''mental_health_disorder'']" "''mental_health_disorder''"]
  by (simp add: domestic_summary_data_def domestic_indictment_data_def
      domestic_no_consent_data_def empty_object_def SUMMARY_ELIGIBLE_EXCEPTIONS_def
      VALID_VULNERABILITIES_def VULNERABILITIES_def)

section \<open>Properties of the store and the stage engine\<close>

lemma p_id_assign: "p_id (assign a r) = p_id r"
  by (cases a) simp_all

lemma p_id_fold_assign: "p_id (fold assign ups r) = p_id r"
  by (induction ups arbitrary: r) (simp_all add: p_id_assign)

lemma filter_id_map_update:
  "(\<And>r. p_id (f r) = p_id r) \<Longrightarrow>
   filter (\<lambda>r. p_id r = i) (map (\<lambda>r. if p_id r = i then f r else r) rows)
     = map f (filter (\<lambda>r. p_id r = i) rows)"
  by (induction rows) simp_all

lemma select_after_update:
  "select_participant i (snd (update_participant ups i db))
     = map (fold assign ups) (select_participant i db)"
  by (simp add: update_participant_def select_participant_def filter_id_map_update
      p_id_fold_assign)

lemma rows0_map: "rows0 (map f rows) = map_option f (rows0 rows)"
  by (cases rows) (simp_all add: rows0_def)

lemma getById_Inr: "(getById i user db = Inr p) = (rows0 (select_participant i db) = Some p)"
  by (simp add: getById_def Let_def split: option.splits)

lemma update_returns:
  "getById i user db = Inr p \<Longrightarrow>
   rows0 (fst (update_participant ups i db)) = Some (fold assign ups p)"
  by (simp add: getById_Inr update_participant_def rows0_map)

lemma getById_after_update:
  "getById i user db = Inr p \<Longrightarrow>
   getById i user (snd (update_participant ups i db)) = Inr (fold assign ups p)"
  by (simp add: getById_Inr select_after_update rows0_map)

lemma withdraw_eq:
  "getById i user db = Inr p \<Longrightarrow>
   withdraw i reason user w db =
     (if outcome_truthy (outcome p)
      then (Inl \<lparr>message = ''Participant already has a final outcome'',
                  statusCode = 400, err_reasons = None\<rparr>, db)
      else (Inr (Some (p\<lparr>outcome := Some ''withdrawn'', completed_at := Some (sql_now w),
                          updated_at := sql_now w\<rparr>)),
            snd (update_participant
                   [SetOutcome ''withdrawn'', SetCompletedAt (sql_now w), SetUpdatedAt (sql_now w)]
                   i db)))"
  using update_returns [of i user db p
      "[SetOutcome ''withdrawn'', SetCompletedAt (sql_now w), SetUpdatedAt (sql_now w)]"]
  by (simp add: withdraw_def split_beta)

lemma revokeVictimConsent_eq:
  "getById i user db = Inr p \<Longrightarrow>
   revokeVictimConsent i user w db =
     (if outcome_truthy (outcome p)
      then (Inl \<lparr>message = ''Participant already has a final outcome'',
                  statusCode = 400, err_reasons = None\<rparr>, db)
      else (Inr (Some (p\<lparr>victim_consent := JBool False, outcome := Some ''returned_to_court'',
                          completed_at := Some (sql_now w), updated_at := sql_now w\<rparr>)),
            snd (update_participant
                   [SetVictimConsent False, SetOutcome ''returned_to_court'',
                    SetCompletedAt (sql_now w), SetUpdatedAt (sql_now w)]
                   i db)))"
  using update_returns [of i user db p
      "[SetVictimConsent False, SetOutcome ''returned_to_court'',
                    SetCompletedAt (sql_now w), SetUpdatedAt (sql_now w)]"]
  by (simp add: revokeVictimConsent_def split_beta)

lemma advanceStage_eq:
  "getById i user db = Inr p \<Longrightarrow>
   advanceStage i user w db =
     (let currentIndex = indexOf PROGRAM_STAGES (stage p)
      in if currentIndex = - 1 \<or> currentIndex \<ge> 5
         then (Inl \<lparr>message = ''Cannot advance beyond the final stage'',
                     statusCode = 400, err_reasons = None\<rparr>, db)
         else (Inr (Some (fold assign
                      (advance_assignments w p (PROGRAM_STAGES ! nat (currentIndex + 1))) p)),
               snd (update_participant
                      (advance_assignments w p (PROGRAM_STAGES ! nat (currentIndex + 1))) i db)))"
proof -
  assume g: "getById i user db = Inr p"
  have len: "int (length PROGRAM_STAGES) - 1 = 5"
    by (simp add: PROGRAM_STAGES_def)
  show ?thesis
    unfolding advanceStage_def g sum.case Let_def len split_beta
    using update_returns [OF g]
    by (simp add: advance_assignments_def)
qed

lemma indexOf_stages:
  "indexOf PROGRAM_STAGES REFERRAL = 0"
  "indexOf PROGRAM_STAGES PROSECUTOR_EVALUATION = 1"
  "indexOf PROGRAM_STAGES CLINICAL_ELIGIBILITY = 2"
  "indexOf PROGRAM_STAGES INTERVENTION_PLAN = 3"
  "indexOf PROGRAM_STAGES HEARING_FOLLOWUPS = 4"
  "indexOf PROGRAM_STAGES PROGRAM_OUTCOME = 5"
  by (simp_all add: PROGRAM_STAGES_def REFERRAL_def PROSECUTOR_EVALUATION_def
      CLINICAL_ELIGIBILITY_def INTERVENTION_PLAN_def HEARING_FOLLOWUPS_def PROGRAM_OUTCOME_def)

lemma stages_nth:
  "PROGRAM_STAGES ! 0 = REFERRAL"
  "PROGRAM_STAGES ! Suc 0 = PROSECUTOR_EVALUATION"
  "PROGRAM_STAGES ! 2 = CLINICAL_ELIGIBILITY"
  "PROGRAM_STAGES ! 3 = INTERVENTION_PLAN"
  "PROGRAM_STAGES ! 4 = HEARING_FOLLOWUPS"
  "PROGRAM_STAGES ! 5 = PROGRAM_OUTCOME"
  by (simp_all add: PROGRAM_STAGES_def)

lemma stages_distinct:
  "PROSECUTOR_EVALUATION \<noteq> PROGRAM_OUTCOME"
  "CLINICAL_ELIGIBILITY \<noteq> PROSECUTOR_EVALUATION" "CLINICAL_ELIGIBILITY \<noteq> PROGRAM_OUTCOME"
  "INTERVENTION_PLAN \<noteq> PROSECUTOR_EVALUATION" "INTERVENTION_PLAN \<noteq> PROGRAM_OUTCOME"
  "HEARING_FOLLOWUPS \<noteq> PROSECUTOR_EVALUATION" "HEARING_FOLLOWUPS \<noteq> PROGRAM_OUTCOME"
  "PROGRAM_OUTCOME \<noteq> PROSECUTOR_EVALUATION"
  by (simp_all add: REFERRAL_def PROSECUTOR_EVALUATION_def
      CLINICAL_ELIGIBILITY_def INTERVENTION_PLAN_def HEARING_FOLLOWUPS_def PROGRAM_OUTCOME_def)

lemma indexOf_range: "- 1 \<le> indexOf xs s \<and> indexOf xs s < int (length xs)"
  by (induction xs) (auto simp add: Let_def)

lemma indexOf_nth: "indexOf xs s \<noteq> - 1 \<Longrightarrow> xs ! nat (indexOf xs s) = s"
proof (induction xs)
  case Nil
  then show ?case by simp
next
  case (Cons x xs)
  show ?case
  proof (cases "x = s")
    case True
    then show ?thesis by simp
  next
    case False
    with Cons.prems have k: "indexOf xs s \<noteq> - 1"
      by (auto simp add: Let_def split: if_splits)
    have "0 \<le> indexOf xs s"
      using indexOf_range [of xs s] k by linarith
    then have "nat (indexOf xs s + 1) = Suc (nat (indexOf xs s))"
      by simp
    with False k Cons.IH show ?thesis
      by (simp add: Let_def)
  qed
qed

lemma assignments_from:
  "stage p = REFERRAL \<Longrightarrow>
     advance_assignments w p (PROGRAM_STAGES ! nat (indexOf PROGRAM_STAGES (stage p) + 1))
     = [SetStage PROSECUTOR_EVALUATION, SetUpdatedAt (sql_now w)]
       @ (if enrolled_at p = None then [SetEnrolledAt (date_now w)] else [])"
  "stage p = PROSECUTOR_EVALUATION \<Longrightarrow>
     advance_assignments w p (PROGRAM_STAGES ! nat (indexOf PROGRAM_STAGES (stage p) + 1))
     = [SetStage CLINICAL_ELIGIBILITY, SetUpdatedAt (sql_now w)]"
  "stage p = CLINICAL_ELIGIBILITY \<Longrightarrow>
     advance_assignments w p (PROGRAM_STAGES ! nat (indexOf PROGRAM_STAGES (stage p) + 1))
     = [SetStage INTERVENTION_PLAN, SetUpdatedAt (sql_now w)]"
  "stage p = INTERVENTION_PLAN \<Longrightarrow>
     advance_assignments w p (PROGRAM_STAGES ! nat (indexOf PROGRAM_STAGES (stage p) + 1))
     = [SetStage HEARING_FOLLOWUPS, SetUpdatedAt (sql_now w)]"
  "stage p = HEARING_FOLLOWUPS \<Longrightarrow>
     advance_assignments w p (PROGRAM_STAGES ! nat (indexOf PROGRAM_STAGES (stage p) + 1))
     = [SetStage PROGRAM_OUTCOME, SetUpdatedAt (sql_now w),
        SetCompletedAt (date_now w), SetOutcome ''completed'']"
  by (simp_all add: advance_assignments_def indexOf_stages stages_nth stages_distinct)

lemma advanced_referral:
  assumes "stage p = REFERRAL"
  shows "advanced w p =
    (if enrolled_at p = None
     then p\<lparr>stage := PROSECUTOR_EVALUATION, updated_at := sql_now w,
            enrolled_at := Some (date_now w)\<rparr>
     else p\<lparr>stage := PROSECUTOR_EVALUATION, updated_at := sql_now w\<rparr>)"
  unfolding advanced_def assignments_from(1) [OF assms] by simp

lemma advanced_prosecutor_evaluation:
  assumes "stage p = PROSECUTOR_EVALUATION"
  shows "advanced w p = p\<lparr>stage := CLINICAL_ELIGIBILITY, updated_at := sql_now w\<rparr>"
  unfolding advanced_def assignments_from(2) [OF assms] by simp

lemma advanced_clinical_eligibility:
  assumes "stage p = CLINICAL_ELIGIBILITY"
  shows "advanced w p = p\<lparr>stage := INTERVENTION_PLAN, updated_at := sql_now w\<rparr>"
  unfolding advanced_def assignments_from(3) [OF assms] by simp

lemma advanced_intervention_plan:
  assumes "stage p = INTERVENTION_PLAN"
  shows "advanced w p = p\<lparr>stage := HEARING_FOLLOWUPS, updated_at := sql_now w\<rparr>"
  unfolding advanced_def assignments_from(4) [OF assms] by simp

lemma advanced_hearing_followups:
  assumes "stage p = HEARING_FOLLOWUPS"
  shows "advanced w p = p\<lparr>stage := PROGRAM_OUTCOME, updated_at := sql_now w,
                    completed_at := Some (date_now w), outcome := Some ''completed''\<rparr>"
  unfolding advanced_def assignments_from(5) [OF assms] by simp

lemma advanceStage_ok:
  assumes g: "getById i user db = Inr p"
    and k: "indexOf PROGRAM_STAGES (stage p) \<noteq> - 1" "indexOf PROGRAM_STAGES (stage p) < 5"
  shows "advanceStage i user w db = (Inr (Some (advanced w p)), advanced_db i w p db)"
    and "getById i user (advanced_db i w p db) = Inr (advanced w p)"
proof -
  show "advanceStage i user w db = (Inr (Some (advanced w p)), advanced_db i w p db)"
    unfolding advanceStage_eq [OF g] Let_def advanced_def advanced_db_def using k by simp
  show "getById i user (advanced_db i w p db) = Inr (advanced w p)"
    unfolding advanced_def advanced_db_def by (rule getById_after_update [OF g])
qed

lemma advanceStage_final:
  assumes g: "getById i user db = Inr p"
    and k: "indexOf PROGRAM_STAGES (stage p) = - 1 \<or> indexOf PROGRAM_STAGES (stage p) = 5"
  shows "advanceStage i user w db =
    (Inl \<lparr>message = ''Cannot advance beyond the final stage'',
           statusCode = 400, err_reasons = None\<rparr>, db)"
  unfolding advanceStage_eq [OF g] Let_def using k by auto

lemma advanceStage_ok_stage:
  assumes g: "getById i user db = Inr p"
    and s: "stage p = REFERRAL \<or> stage p = PROSECUTOR_EVALUATION
          \<or> stage p = CLINICAL_ELIGIBILITY \<or> stage p = INTERVENTION_PLAN
          \<or> stage p = HEARING_FOLLOWUPS"
  shows "advanceStage i user w db = (Inr (Some (advanced w p)), advanced_db i w p db)"
    and "getById i user (advanced_db i w p db) = Inr (advanced w p)"
proof -
  have k: "indexOf PROGRAM_STAGES (stage p) \<noteq> - 1 \<and> indexOf PROGRAM_STAGES (stage p) < 5"
    using s by (auto simp add: indexOf_stages)
  show "advanceStage i user w db = (Inr (Some (advanced w p)), advanced_db i w p db)"
    using advanceStage_ok(1) [OF g] k by blast
  show "getById i user (advanced_db i w p db) = Inr (advanced w p)"
    using advanceStage_ok(2) [OF g] k by blast
qed

lemma advanceStage_succeeds_only_before_final:
  assumes g: "getById i user db = Inr p"
    and ok: "advanceStage i user w db = (Inr r, db')"
  shows "stage p = REFERRAL \<or> stage p = PROSECUTOR_EVALUATION
          \<or> stage p = CLINICAL_ELIGIBILITY \<or> stage p = INTERVENTION_PLAN
          \<or> stage p = HEARING_FOLLOWUPS"
proof -
  let ?k = "indexOf PROGRAM_STAGES (stage p)"
  have k: "?k \<noteq> - 1 \<and> ?k < 5"
    using ok unfolding advanceStage_eq [OF g] Let_def by (auto split: if_splits)
  then have nth: "PROGRAM_STAGES ! nat ?k = stage p"
    using indexOf_nth by blast
  have "0 \<le> ?k"
    using indexOf_range [of PROGRAM_STAGES "stage p"] k by linarith
  with k have "nat ?k = 0 \<or> nat ?k = Suc 0 \<or> nat ?k = 2 \<or> nat ?k = 3 \<or> nat ?k = 4"
    by auto
  then show ?thesis
    using nth stages_nth by metis
qed

lemma getById_db_of: "p_id p = i \<Longrightarrow> getById i user (db_of p) = Inr p"
  by (simp add: getById_def db_of_def select_participant_def rows0_def)

lemma update_db_of:
  "p_id p = i \<Longrightarrow> snd (update_participant ups i (db_of p)) = db_of (fold assign ups p)"
  by (simp add: update_participant_def db_of_def)

lemma advanced_db_of: "p_id p = i \<Longrightarrow> advanced_db i w p (db_of p) = db_of (advanced w p)"
  by (simp add: advanced_db_def advanced_def update_db_of)

lemma theft_data_eligible: "eligible (checkEligibility theft_data) = True"
proof -
  have v: "check_vulnerability theft_data [] = []"
    by (simp add: check_vulnerability_def theft_data_def empty_object_def
        VALID_VULNERABILITIES_def VULNERABILITIES_def)
  have a: "check_absolute_exclusion theft_data [] = []"
    by (simp add: check_absolute_exclusion_def theft_data_def empty_object_def
        ABSOLUTE_EXCLUSIONS_def)
  have c: "check_conditional_exclusion theft_data [] = []"
    by (simp add: check_conditional_exclusion_def theft_data_def empty_object_def
        SUMMARY_ELIGIBLE_EXCEPTIONS_def)
  have r: "check_accepts_responsibility theft_data [] = []"
    by (simp add: check_accepts_responsibility_def theft_data_def empty_object_def)
  have vo: "check_is_voluntary theft_data [] = []"
    by (simp add: check_is_voluntary_def theft_data_def empty_object_def)
  have w: "check_waives_delay theft_data [] = []"
    by (simp add: check_waives_delay_def theft_data_def empty_object_def)
  have f: "check_criminally_fit theft_data [] = []"
    by (simp add: check_criminally_fit_def theft_data_def empty_object_def)
  show ?thesis
    unfolding eligible_checkEligibility reasons_checkEligibility v a c r vo w f by simp
qed

lemma enroll_eq:
  "enroll data user w db =
    (if \<not> eligible (checkEligibility data)
     then (Inl (ServiceError
                  \<lparr>message = ''Participant is not eligible for PAJ-SM+'',
                   statusCode = 400,
                   err_reasons = Some (reasons (checkEligibility data))\<rparr>), db)
     else if accepts_participant w (enroll_row data w)
     then (Inr (Some (enroll_row data w)),
           db\<lparr>pajsm_participants := pajsm_participants db @ [enroll_row data w]\<rparr>)
     else (Inl DatabaseError, db))"
  by (simp add: enroll_def Let_def insert_participant_def rows0_def enroll_row_def)

lemma enroll_row_theft_data: "enroll_row theft_data (tick 0) = referral_participant"
  by (simp add: enroll_row_def tick_def referral_participant_def theft_data_def
      empty_object_def js_or_def REFERRAL_def)

lemma accepts_referral_participant: "accepts_participant (tick 0) referral_participant"
  by (simp add: accepts_participant_def participant_not_null_def participant_checks_def
      sql_null_def tick_def referral_participant_def)

lemma enroll_theft_data:
  "enroll theft_data admin_user (tick 0) empty_db
     = (Inr (Some referral_participant), db_of referral_participant)"
  unfolding enroll_eq theft_data_eligible enroll_row_theft_data
  using accepts_referral_participant by (simp add: empty_db_def db_of_def)

lemma no_name_data_eligible: "eligible (checkEligibility no_name_data) = True"
proof -
  have v: "check_vulnerability no_name_data [] = []"
    by (simp add: check_vulnerability_def no_name_data_def empty_object_def
        VALID_VULNERABILITIES_def VULNERABILITIES_def)
  have a: "check_absolute_exclusion no_name_data [] = []"
    by (simp add: check_absolute_exclusion_def no_name_data_def empty_object_def
        ABSOLUTE_EXCLUSIONS_def)
  have c: "check_conditional_exclusion no_name_data [] = []"
    by (simp add: check_conditional_exclusion_def no_name_data_def empty_object_def
        SUMMARY_ELIGIBLE_EXCEPTIONS_def)
  have r: "check_accepts_responsibility no_name_data [] = []"
    by (simp add: check_accepts_responsibility_def no_name_data_def empty_object_def)
  have vo: "check_is_voluntary no_name_data [] = []"
    by (simp add: check_is_voluntary_def no_name_data_def empty_object_def)
  have w: "check_waives_delay no_name_data [] = []"
    by (simp add: check_waives_delay_def no_name_data_def empty_object_def)
  have f: "check_criminally_fit no_name_data [] = []"
    by (simp add: check_criminally_fit_def no_name_data_def empty_object_def)
  show ?thesis
    unfolding eligible_checkEligibility reasons_checkEligibility v a c r vo w f by simp
qed

lemma no_name_data_rejected:
  "accused_name (enroll_row no_name_data (tick 0)) = JUndefined"
  "participant_not_null (enroll_row no_name_data (tick 0)) = False"
  "accepts_participant (tick 0) (enroll_row no_name_data (tick 0)) = False"
  by (simp_all add: accepts_participant_def participant_not_null_def sql_null_def
      enroll_row_def no_name_data_def empty_object_def)

lemma max_failing_data_ineligible: "eligible (checkEligibility max_failing_data) = False"
proof -
  have "check_vulnerability max_failing_data [] =
      [''At least one recognized vulnerability is required'']"
    by (simp add: check_vulnerability_def max_failing_data_def empty_object_def)
  then show ?thesis
    unfolding eligible_checkEligibility reasons_checkEligibility by simp
qed

lemma advanceStage_cases:
  assumes g: "getById i user db = Inr p"
    and ok: "advanceStage i user w db = (Inr r, db')"
  shows "r = Some (advanced w p)" and "db' = advanced_db i w p db"
    and "getById i user db' = Inr (advanced w p)"
proof -
  note s = advanceStage_succeeds_only_before_final [OF g ok]
  have eq: "advanceStage i user w db = (Inr (Some (advanced w p)), advanced_db i w p db)"
    using advanceStage_ok_stage(1) [OF g s] .
  show "r = Some (advanced w p)" using ok eq by simp
  show d: "db' = advanced_db i w p db" using ok eq by simp
  show "getById i user db' = Inr (advanced w p)"
    unfolding d using advanceStage_ok_stage(2) [OF g s] .
qed

lemma advance_referral_participant:
  "advanceStage ''p-1'' admin_user (tick 1) (db_of referral_participant)
     = (Inr (Some pe_participant), db_of pe_participant)"
proof -
  have i: "p_id referral_participant = ''p-1''"
    and s: "stage referral_participant = REFERRAL"
    by (simp_all add: referral_participant_def REFERRAL_def)
  have a: "advanced (tick 1) referral_participant = pe_participant"
    unfolding advanced_referral [OF s]
    by (simp add: pe_participant_def referral_participant_def tick_def
        PROSECUTOR_EVALUATION_def)
  have st: "stage referral_participant = REFERRAL
      \<or> stage referral_participant = PROSECUTOR_EVALUATION
      \<or> stage referral_participant = CLINICAL_ELIGIBILITY
      \<or> stage referral_participant = INTERVENTION_PLAN
      \<or> stage referral_participant = HEARING_FOLLOWUPS"
    using s by simp
  show ?thesis
    using advanceStage_ok_stage(1) [OF getById_db_of [OF i] st, of admin_user "tick 1"]
    unfolding advanced_db_of [OF i] a .
qed

lemma advance_pe_participant:
  "advanceStage ''p-1'' admin_user (tick 2) (db_of pe_participant)
     = (Inr (Some (pe_participant\<lparr>stage := ''clinical_eligibility'', updated_at := 21\<rparr>)),
        db_of (pe_participant\<lparr>stage := ''clinical_eligibility'', updated_at := 21\<rparr>))"
proof -
  have i: "p_id pe_participant = ''p-1''"
    and s: "stage pe_participant = PROSECUTOR_EVALUATION"
    by (simp_all add: pe_participant_def referral_participant_def PROSECUTOR_EVALUATION_def)
  have a: "advanced (tick 2) pe_participant
      = pe_participant\<lparr>stage := ''clinical_eligibility'', updated_at := 21\<rparr>"
    unfolding advanced_prosecutor_evaluation [OF s]
    by (simp add: tick_def CLINICAL_ELIGIBILITY_def)
  have st: "stage pe_participant = REFERRAL
      \<or> stage pe_participant = PROSECUTOR_EVALUATION
      \<or> stage pe_participant = CLINICAL_ELIGIBILITY
      \<or> stage pe_participant = INTERVENTION_PLAN
      \<or> stage pe_participant = HEARING_FOLLOWUPS"
    using s by simp
  show ?thesis
    using advanceStage_ok_stage(1) [OF getById_db_of [OF i] st, of admin_user "tick 2"]
    unfolding advanced_db_of [OF i] a .
qed

lemma referral_participant_facts:
  "getById ''p-1'' admin_user (db_of referral_participant) = Inr referral_participant"
  "stage referral_participant = REFERRAL"
  by (simp_all add: getById_db_of referral_participant_def REFERRAL_def)

lemma advance_all_from_referral:
  assumes g: "getById i user db = Inr p"
    and s: "stage p = REFERRAL"
  shows "fst (advance_all i user [w1, w2, w3, w4, w5, w6] db) =
      [Inr (Some (fold advanced [w1] p)),
       Inr (Some (fold advanced [w1, w2] p)),
       Inr (Some (fold advanced [w1, w2, w3] p)),
       Inr (Some (fold advanced [w1, w2, w3, w4] p)),
       Inr (Some (fold advanced [w1, w2, w3, w4, w5] p)),
       Inl \<lparr>message = ''Cannot advance beyond the final stage'',
             statusCode = 400, err_reasons = None\<rparr>]"
    and "getById i user (snd (advance_all i user [w1, w2, w3, w4, w5, w6] db))
      = Inr (fold advanced [w1, w2, w3, w4, w5] p)"
    and "stage (fold advanced [w1, w2, w3, w4, w5] p) = PROGRAM_OUTCOME"
    and "outcome (fold advanced [w1, w2, w3, w4, w5] p) = Some ''completed''"
    and "completed_at (fold advanced [w1, w2, w3, w4, w5] p) = Some (date_now w5)"
proof -
  define p1 where "p1 = advanced w1 p"
  define p2 where "p2 = advanced w2 p1"
  define p3 where "p3 = advanced w3 p2"
  define p4 where "p4 = advanced w4 p3"
  define p5 where "p5 = advanced w5 p4"
  define db1 where "db1 = advanced_db i w1 p db"
  define db2 where "db2 = advanced_db i w2 p1 db1"
  define db3 where "db3 = advanced_db i w3 p2 db2"
  define db4 where "db4 = advanced_db i w4 p3 db3"
  define db5 where "db5 = advanced_db i w5 p4 db4"
  have f: "fold advanced [w1] p = p1" "fold advanced [w1, w2] p = p2"
    "fold advanced [w1, w2, w3] p = p3" "fold advanced [w1, w2, w3, w4] p = p4"
    "fold advanced [w1, w2, w3, w4, w5] p = p5"
    by (simp_all add: p1_def p2_def p3_def p4_def p5_def)
  have s1: "stage p1 = PROSECUTOR_EVALUATION"
    unfolding p1_def advanced_referral [OF s] by simp
  have s2: "stage p2 = CLINICAL_ELIGIBILITY"
    unfolding p2_def advanced_prosecutor_evaluation [OF s1] by simp
  have s3: "stage p3 = INTERVENTION_PLAN"
    unfolding p3_def advanced_clinical_eligibility [OF s2] by simp
  have s4: "stage p4 = HEARING_FOLLOWUPS"
    unfolding p4_def advanced_intervention_plan [OF s3] by simp
  have s5: "stage p5 = PROGRAM_OUTCOME" "outcome p5 = Some ''completed''"
    "completed_at p5 = Some (date_now w5)"
    unfolding p5_def advanced_hearing_followups [OF s4] by simp_all
  have a1: "advanceStage i user w1 db = (Inr (Some p1), db1)"
    and g1: "getById i user db1 = Inr p1"
    unfolding p1_def db1_def using advanceStage_ok_stage [OF g] s by blast+
  have a2: "advanceStage i user w2 db1 = (Inr (Some p2), db2)"
    and g2: "getById i user db2 = Inr p2"
    unfolding p2_def db2_def using advanceStage_ok_stage [OF g1] s1 by blast+
  have a3: "advanceStage i user w3 db2 = (Inr (Some p3), db3)"
    and g3: "getById i user db3 = Inr p3"
    unfolding p3_def db3_def using advanceStage_ok_stage [OF g2] s2 by blast+
  have a4: "advanceStage i user w4 db3 = (Inr (Some p4), db4)"
    and g4: "getById i user db4 = Inr p4"
    unfolding p4_def db4_def using advanceStage_ok_stage [OF g3] s3 by blast+
  have a5: "advanceStage i user w5 db4 = (Inr (Some p5), db5)"
    and g5: "getById i user db5 = Inr p5"
    unfolding p5_def db5_def using advanceStage_ok_stage [OF g4] s4 by blast+
  have a6: "advanceStage i user w6 db5 =
      (Inl \<lparr>message = ''Cannot advance beyond the final stage'',
             statusCode = 400, err_reasons = None\<rparr>, db5)"
    using advanceStage_final [OF g5] s5(1) by (simp add: indexOf_stages)
  have all: "advance_all i user [w1, w2, w3, w4, w5, w6] db =
      ([Inr (Some p1), Inr (Some p2), Inr (Some p3), Inr (Some p4), Inr (Some p5),
        Inl \<lparr>message = ''Cannot advance beyond the final stage'',
              statusCode = 400, err_reasons = None\<rparr>], db5)"
    by (simp add: a1 a2 a3 a4 a5 a6)
  show "fst (advance_all i user [w1, w2, w3, w4, w5, w6] db) =
      [Inr (Some (fold advanced [w1] p)),
       Inr (Some (fold advanced [w1, w2] p)),
       Inr (Some (fold advanced [w1, w2, w3] p)),
       Inr (Some (fold advanced [w1, w2, w3, w4] p)),
       Inr (Some (fold advanced [w1, w2, w3, w4, w5] p)),
       Inl \<lparr>message = ''Cannot advance beyond the final stage'',
             statusCode = 400, err_reasons = None\<rparr>]"
    unfolding f all by simp
  show "getById i user (snd (advance_all i user [w1, w2, w3, w4, w5, w6] db))
      = Inr (fold advanced [w1, w2, w3, w4, w5] p)"
    unfolding f all using g5 by simp
  show "stage (fold advanced [w1, w2, w3, w4, w5] p) = PROGRAM_OUTCOME"
    "outcome (fold advanced [w1, w2, w3, w4, w5] p) = Some ''completed''"
    "completed_at (fold advanced [w1, w2, w3, w4, w5] p) = Some (date_now w5)"
    unfolding f using s5 by simp_all
qed

lemma withdraw_referral_participant:
  "withdraw ''p-1'' reason admin_user (tick 3) (db_of referral_participant)
     = (Inr (Some withdrawn_participant), db_of withdrawn_participant)"
proof -
  have i: "p_id referral_participant = ''p-1''"
    by (simp add: referral_participant_def)
  have o: "\<not> outcome_truthy (outcome referral_participant)"
    by (simp add: referral_participant_def outcome_truthy_def)
  have u: "fold assign
        [SetOutcome ''withdrawn'', SetCompletedAt (sql_now (tick 3)),
         SetUpdatedAt (sql_now (tick 3))] referral_participant = withdrawn_participant"
    by (simp add: withdrawn_participant_def tick_def)
  have w: "referral_participant
        \<lparr>outcome := Some ''withdrawn'', completed_at := Some (sql_now (tick 3)),
         updated_at := sql_now (tick 3)\<rparr> = withdrawn_participant"
    by (simp add: withdrawn_participant_def tick_def)
  show ?thesis
    unfolding withdraw_eq [OF getById_db_of [OF i]] update_db_of [OF i] u w
    using o by simp
qed

lemma withdrawn_participant_facts:
  "getById ''p-1'' admin_user (db_of withdrawn_participant) = Inr withdrawn_participant"
  "stage withdrawn_participant = REFERRAL"
  by (simp_all add: getById_db_of withdrawn_participant_def referral_participant_def
      REFERRAL_def)

lemma advance_withdrawn_participant:
  "advanceStage ''p-1'' admin_user (tick 4) (db_of withdrawn_participant)
     = (Inr (Some (withdrawn_participant
                     \<lparr>stage := ''prosecutor_evaluation'', updated_at := 41,
                      enrolled_at := Some 40\<rparr>)),
        db_of (withdrawn_participant
                 \<lparr>stage := ''prosecutor_evaluation'', updated_at := 41,
                  enrolled_at := Some 40\<rparr>))"
proof -
  have i: "p_id withdrawn_participant = ''p-1''"
    by (simp add: withdrawn_participant_def referral_participant_def)
  note s = withdrawn_participant_facts(2)
  have e: "enrolled_at withdrawn_participant = None"
    by (simp add: withdrawn_participant_def referral_participant_def)
  have a: "advanced (tick 4) withdrawn_participant
      = withdrawn_participant
          \<lparr>stage := ''prosecutor_evaluation'', updated_at := 41, enrolled_at := Some 40\<rparr>"
    unfolding advanced_referral [OF s] using e
    by (simp add: tick_def PROSECUTOR_EVALUATION_def)
  have st: "stage withdrawn_participant = REFERRAL
      \<or> stage withdrawn_participant = PROSECUTOR_EVALUATION
      \<or> stage withdrawn_participant = CLINICAL_ELIGIBILITY
      \<or> stage withdrawn_participant = INTERVENTION_PLAN
      \<or> stage withdrawn_participant = HEARING_FOLLOWUPS"
    using s by simp
  show ?thesis
    using advanceStage_ok_stage(1) [OF getById_db_of [OF i] st, of admin_user "tick 4"]
    unfolding advanced_db_of [OF i] a .
qed

lemma revokeVictimConsent_blocked:
  assumes g: "getById i user db = Inr p"
    and o: "outcome p = Some s" "s \<in> set OUTCOMES"
  shows "revokeVictimConsent i user w db =
    (Inl \<lparr>message = ''Participant already has a final outcome'',
           statusCode = 400, err_reasons = None\<rparr>, db)"
proof -
  have "outcome_truthy (outcome p)"
    using o by (auto simp add: outcome_truthy_def OUTCOMES_def)
  then show ?thesis
    unfolding revokeVictimConsent_eq [OF g] by simp
qed

section \<open>The claims about the stage engine\<close>

text \<open>
  C8, as amended. When the evaluator finds the input not eligible, \<^verbatim>\<open>enroll\<close> throws the
  error that carries the evaluator's whole list of reasons and leaves the tables as they
  were, so no participant is created. When the input is eligible and the database accepts
  the row built from it (a name of the accused is present, the modes of prosecution and of
  consent are absent or among the values their \<^verbatim>\<open>CHECK\<close> lists, and the server has no other
  objection), \<^verbatim>\<open>enroll\<close> inserts that one participant, at stage \<open>referral\<close>, with
  \<open>enrolled_at\<close>, \<open>completed_at\<close> and \<open>outcome\<close> unset. When the input is eligible and the
  database rejects the row, \<^verbatim>\<open>enroll\<close> throws the database's error and no participant is
  created.
\<close>

theorem enroll_requires_eligibility:
  "(\<not> eligible (checkEligibility data)
      \<longrightarrow> enroll data user w db =
            (Inl (ServiceError
                    \<lparr>message = ''Participant is not eligible for PAJ-SM+'',
                     statusCode = 400,
                     err_reasons = Some (reasons (checkEligibility data))\<rparr>), db))
   \<and> (eligible (checkEligibility data)
        \<and> \<not> sql_null (data ''accused_name'')
        \<and> (\<not> truthy (data ''prosecution_mode'')
             \<or> data ''prosecution_mode'' = JStr ''summary''
             \<or> data ''prosecution_mode'' = JStr ''indictment'')
        \<and> (\<not> truthy (data ''victim_consent_mode'')
             \<or> data ''victim_consent_mode'' = JStr ''written''
             \<or> data ''victim_consent_mode'' = JStr ''verbal'')
        \<and> server_accepts w (enroll_row data w)
      \<longrightarrow> accepts_participant w (enroll_row data w)
        \<and> enroll data user w db =
            (Inr (Some (enroll_row data w)),
             db\<lparr>pajsm_participants := pajsm_participants db @ [enroll_row data w]\<rparr>)
        \<and> stage (enroll_row data w) = REFERRAL
        \<and> enrolled_at (enroll_row data w) = None
        \<and> completed_at (enroll_row data w) = None
        \<and> outcome (enroll_row data w) = None)
   \<and> (eligible (checkEligibility data) \<and> \<not> accepts_participant w (enroll_row data w)
      \<longrightarrow> enroll data user w db = (Inl DatabaseError, db))"
proof (intro conjI impI)
  assume "\<not> eligible (checkEligibility data)"
  then show "enroll data user w db =
            (Inl (ServiceError
                    \<lparr>message = ''Participant is not eligible for PAJ-SM+'',
                     statusCode = 400,
                     err_reasons = Some (reasons (checkEligibility data))\<rparr>), db)"
    unfolding enroll_eq by simp
next
  assume h: "eligible (checkEligibility data)
        \<and> \<not> sql_null (data ''accused_name'')
        \<and> (\<not> truthy (data ''prosecution_mode'')
             \<or> data ''prosecution_mode'' = JStr ''summary''
             \<or> data ''prosecution_mode'' = JStr ''indictment'')
        \<and> (\<not> truthy (data ''victim_consent_mode'')
             \<or> data ''victim_consent_mode'' = JStr ''written''
             \<or> data ''victim_consent_mode'' = JStr ''verbal'')
        \<and> server_accepts w (enroll_row data w)"
  have arr: "\<not> sql_null (data ''vulnerabilities'')"
  proof
    assume "sql_null (data ''vulnerabilities'')"
    then have "check_vulnerability data [] \<noteq> []"
      by (auto simp add: sql_null_def check_vulnerability_def)
    then have "reasons (checkEligibility data) \<noteq> []"
      unfolding reasons_checkEligibility by simp
    with h show False
      unfolding eligible_checkEligibility by simp
  qed
  have nn: "participant_not_null (enroll_row data w)"
    using h arr by (simp add: participant_not_null_def enroll_row_def)
  have ck: "participant_checks (enroll_row data w)"
    using h by (auto simp add: participant_checks_def enroll_row_def js_or_def sql_null_def)
  show acc: "accepts_participant w (enroll_row data w)"
    using nn ck h by (simp add: accepts_participant_def)
  show "enroll data user w db =
            (Inr (Some (enroll_row data w)),
             db\<lparr>pajsm_participants := pajsm_participants db @ [enroll_row data w]\<rparr>)"
    unfolding enroll_eq using h acc by simp
  show "stage (enroll_row data w) = REFERRAL"
    "enrolled_at (enroll_row data w) = None"
    "completed_at (enroll_row data w) = None"
    "outcome (enroll_row data w) = None"
    by (simp_all add: enroll_row_def)
next
  assume "eligible (checkEligibility data) \<and> \<not> accepts_participant w (enroll_row data w)"
  then show "enroll data user w db = (Inl DatabaseError, db)"
    unfolding enroll_eq by simp
qed

theorem enroll_requires_eligibility_witness:
  "eligible (checkEligibility max_failing_data) = False
   \<and> enroll max_failing_data admin_user (tick 0) empty_db =
       (Inl (ServiceError
               \<lparr>message = ''Participant is not eligible for PAJ-SM+'',
                statusCode = 400,
                err_reasons = Some (reasons (checkEligibility max_failing_data))\<rparr>), empty_db)
   \<and> eligible (checkEligibility theft_data) = True
   \<and> sql_null (theft_data ''accused_name'') = False
   \<and> theft_data ''prosecution_mode'' = JStr ''summary''
   \<and> truthy (theft_data ''victim_consent_mode'') = False
   \<and> server_accepts (tick 0) (enroll_row theft_data (tick 0)) = True
   \<and> enroll_row theft_data (tick 0) = referral_participant
   \<and> enroll theft_data admin_user (tick 0) empty_db =
       (Inr (Some referral_participant), db_of referral_participant)
   \<and> stage referral_participant = REFERRAL
   \<and> enrolled_at referral_participant = None
   \<and> completed_at referral_participant = None
   \<and> outcome referral_participant = None
   \<and> eligible (checkEligibility no_name_data) = True
   \<and> accepts_participant (tick 0) (enroll_row no_name_data (tick 0)) = False
   \<and> enroll no_name_data admin_user (tick 0) empty_db = (Inl DatabaseError, empty_db)"
proof -
  have n: "sql_null (theft_data ''accused_name'') = False"
    and m: "theft_data ''prosecution_mode'' = JStr ''summary''"
    and c: "truthy (theft_data ''victim_consent_mode'') = False"
    by (simp_all add: theft_data_def empty_object_def sql_null_def)
  have sa: "server_accepts (tick 0) (enroll_row theft_data (tick 0)) = True"
    by (simp add: tick_def)
  have r: "stage referral_participant = REFERRAL"
    "enrolled_at referral_participant = None"
    "completed_at referral_participant = None"
    "outcome referral_participant = None"
    by (simp_all add: referral_participant_def REFERRAL_def)
  have p1: "enroll max_failing_data admin_user (tick 0) empty_db =
       (Inl (ServiceError
               \<lparr>message = ''Participant is not eligible for PAJ-SM+'',
                statusCode = 400,
                err_reasons = Some (reasons (checkEligibility max_failing_data))\<rparr>), empty_db)"
    using enroll_requires_eligibility [of max_failing_data admin_user "tick 0" empty_db]
      max_failing_data_ineligible by simp
  have p2: "enroll theft_data admin_user (tick 0) empty_db =
       (Inr (Some (enroll_row theft_data (tick 0))),
        empty_db\<lparr>pajsm_participants :=
                   pajsm_participants empty_db @ [enroll_row theft_data (tick 0)]\<rparr>)"
    using enroll_requires_eligibility [of theft_data admin_user "tick 0" empty_db]
      theft_data_eligible n m c sa by simp
  have p3: "enroll no_name_data admin_user (tick 0) empty_db = (Inl DatabaseError, empty_db)"
    using enroll_requires_eligibility [of no_name_data admin_user "tick 0" empty_db]
      no_name_data_eligible no_name_data_rejected(3) by simp
  have d: "empty_db\<lparr>pajsm_participants := pajsm_participants empty_db @ [referral_participant]\<rparr>
      = db_of referral_participant"
    by (simp add: empty_db_def db_of_def)
  show ?thesis
    using p1 p2 p3 n m c sa r d max_failing_data_ineligible theft_data_eligible
      no_name_data_eligible no_name_data_rejected(3) enroll_row_theft_data
    by simp
qed

text \<open>
  C8, as stated, promises a participant for every eligible input. The evaluator never looks
  at the name of the accused and \<^verbatim>\<open>enroll\<close> sends the body as it is: a body that is
  eligible but has no \<^verbatim>\<open>accused_name\<close> gives a row that violates \<^verbatim>\<open>NOT NULL\<close>, so the
  \<^verbatim>\<open>INSERT\<close> is rejected, \<^verbatim>\<open>enroll\<close> throws and the table stays empty.
\<close>

theorem enroll_eligible_without_name_creates_nothing:
  "eligible (checkEligibility no_name_data) = True
   \<and> accused_name (enroll_row no_name_data (tick 0)) = JUndefined
   \<and> participant_not_null (enroll_row no_name_data (tick 0)) = False
   \<and> enroll no_name_data admin_user (tick 0) empty_db = (Inl DatabaseError, empty_db)
   \<and> pajsm_participants empty_db = []"
  unfolding enroll_eq no_name_data_eligible no_name_data_rejected
  by (simp add: empty_db_def)

text \<open>
  C10. The result of \<^verbatim>\<open>withdraw\<close> and the database it leaves do not depend on the reason
  passed: the parameter is never read.
\<close>

theorem withdraw_reason_irrelevant:
  "withdraw i reason1 user w db = withdraw i reason2 user w db"
  by (simp add: withdraw_def)

text \<open>
  C7. For a participant without an outcome \<^verbatim>\<open>withdraw\<close> succeeds: the row it returns, which
  is also the row then stored, has outcome \<open>withdrawn\<close> and \<open>completed_at\<close> set to the
  current time of the database, and the same stage as before. For a participant whose
  outcome is one of the three final values it throws "Participant already has a final
  outcome" and the database is unchanged.
\<close>

theorem withdraw_sets_outcome_keeps_stage:
  assumes g: "getById i user db = Inr p"
  shows
    "(outcome p = None
       \<longrightarrow> fst (withdraw i reason user w db) =
             Inr (Some (p\<lparr>outcome := Some ''withdrawn'', completed_at := Some (sql_now w),
                          updated_at := sql_now w\<rparr>))
         \<and> getById i user (snd (withdraw i reason user w db)) =
             Inr (p\<lparr>outcome := Some ''withdrawn'', completed_at := Some (sql_now w),
                    updated_at := sql_now w\<rparr>)
         \<and> stage (p\<lparr>outcome := Some ''withdrawn'', completed_at := Some (sql_now w),
                     updated_at := sql_now w\<rparr>) = stage p)
     \<and> (outcome p = Some s \<and> s \<in> set OUTCOMES
       \<longrightarrow> withdraw i reason user w db =
             (Inl \<lparr>message = ''Participant already has a final outcome'',
                    statusCode = 400, err_reasons = None\<rparr>, db))"
proof (intro conjI impI)
  assume "outcome p = None"
  then have nt: "\<not> outcome_truthy (outcome p)"
    by (simp add: outcome_truthy_def)
  show "fst (withdraw i reason user w db) =
             Inr (Some (p\<lparr>outcome := Some ''withdrawn'', completed_at := Some (sql_now w),
                          updated_at := sql_now w\<rparr>))"
    unfolding withdraw_eq [OF g] using nt by simp
  show "getById i user (snd (withdraw i reason user w db)) =
             Inr (p\<lparr>outcome := Some ''withdrawn'', completed_at := Some (sql_now w),
                    updated_at := sql_now w\<rparr>)"
    unfolding withdraw_eq [OF g] using nt
      getById_after_update [OF g, of "[SetOutcome ''withdrawn'', SetCompletedAt (sql_now w),
        SetUpdatedAt (sql_now w)]"]
    by simp
  show "stage (p\<lparr>outcome := Some ''withdrawn'', completed_at := Some (sql_now w),
                     updated_at := sql_now w\<rparr>) = stage p"
    by simp
next
  assume "outcome p = Some s \<and> s \<in> set OUTCOMES"
  then have "outcome_truthy (outcome p)"
    by (auto simp add: outcome_truthy_def OUTCOMES_def)
  then show "withdraw i reason user w db =
             (Inl \<lparr>message = ''Participant already has a final outcome'',
                    statusCode = 400, err_reasons = None\<rparr>, db)"
    unfolding withdraw_eq [OF g] by simp
qed

theorem withdraw_sets_outcome_keeps_stage_witness:
  "getById ''p-1'' admin_user (db_of referral_participant) = Inr referral_participant
   \<and> outcome referral_participant = None
   \<and> fst (withdraw ''p-1'' (JStr ''moved away'') admin_user (tick 3)
            (db_of referral_participant)) =
       Inr (Some (referral_participant
                    \<lparr>outcome := Some ''withdrawn'', completed_at := Some 31, updated_at := 31\<rparr>))
   \<and> stage (referral_participant
              \<lparr>outcome := Some ''withdrawn'', completed_at := Some 31, updated_at := 31\<rparr>)
       = ''referral''
   \<and> getById ''p-1'' admin_user (db_of withdrawn_plan_participant)
       = Inr withdrawn_plan_participant
   \<and> outcome withdrawn_plan_participant = Some ''withdrawn''
   \<and> ''withdrawn'' \<in> set OUTCOMES
   \<and> withdraw ''p-1'' (JStr ''moved away'') admin_user (tick 6)
         (db_of withdrawn_plan_participant) =
       (Inl \<lparr>message = ''Participant already has a final outcome'',
              statusCode = 400, err_reasons = None\<rparr>, db_of withdrawn_plan_participant)"
  using
    withdraw_sets_outcome_keeps_stage [of "''p-1''" admin_user "db_of referral_participant"
      referral_participant "JStr ''moved away''" "tick 3" "''withdrawn''"]
    withdraw_sets_outcome_keeps_stage [of "''p-1''" admin_user "db_of withdrawn_plan_participant"
      withdrawn_plan_participant "JStr ''moved away''" "tick 6" "''withdrawn''"]
    getById_db_of [of referral_participant "''p-1''" admin_user]
    getById_db_of [of withdrawn_plan_participant "''p-1''" admin_user]
  by (simp add: referral_participant_def withdrawn_plan_participant_def tick_def OUTCOMES_def)



text \<open>
  C6, as amended. A successful \<^verbatim>\<open>advanceStage\<close> returns and stores the row \<open>advanced w p\<close>,
  which differs from the row \<open>p\<close> it found as follows. The stage becomes the next one
  and \<open>updated_at\<close> the current time of the database, on every transition. Entering
  \<open>prosecutor_evaluation\<close> also sets \<open>enrolled_at\<close> to the current time, only when it
  was not set. Entering \<open>program_outcome\<close> also sets \<open>completed_at\<close> to the current time
  and \<open>outcome\<close> to \<open>completed\<close>. Nothing else changes; in particular the other
  transitions leave \<open>enrolled_at\<close>, \<open>completed_at\<close> and \<open>outcome\<close> alone.
\<close>

theorem advanceStage_side_effects:
  assumes g: "getById i user db = Inr p"
    and ok: "advanceStage i user w db = (Inr r, db')"
  shows
    "getById i user db' = Inr (advanced w p) \<and> r = Some (advanced w p)
     \<and> ((stage p = REFERRAL \<and> enrolled_at p = None
          \<and> advanced w p = p\<lparr>stage := PROSECUTOR_EVALUATION, updated_at := sql_now w,
                                enrolled_at := Some (date_now w)\<rparr>)
        \<or> (stage p = REFERRAL \<and> enrolled_at p \<noteq> None
          \<and> advanced w p = p\<lparr>stage := PROSECUTOR_EVALUATION, updated_at := sql_now w\<rparr>)
        \<or> (stage p = PROSECUTOR_EVALUATION
          \<and> advanced w p = p\<lparr>stage := CLINICAL_ELIGIBILITY, updated_at := sql_now w\<rparr>)
        \<or> (stage p = CLINICAL_ELIGIBILITY
          \<and> advanced w p = p\<lparr>stage := INTERVENTION_PLAN, updated_at := sql_now w\<rparr>)
        \<or> (stage p = INTERVENTION_PLAN
          \<and> advanced w p = p\<lparr>stage := HEARING_FOLLOWUPS, updated_at := sql_now w\<rparr>)
        \<or> (stage p = HEARING_FOLLOWUPS
          \<and> advanced w p = p\<lparr>stage := PROGRAM_OUTCOME, updated_at := sql_now w,
                                completed_at := Some (date_now w),
                                outcome := Some ''completed''\<rparr>))"
proof -
  note s = advanceStage_succeeds_only_before_final [OF g ok]
  have "(stage p = REFERRAL \<and> enrolled_at p = None
          \<and> advanced w p = p\<lparr>stage := PROSECUTOR_EVALUATION, updated_at := sql_now w,
                                enrolled_at := Some (date_now w)\<rparr>)
        \<or> (stage p = REFERRAL \<and> enrolled_at p \<noteq> None
          \<and> advanced w p = p\<lparr>stage := PROSECUTOR_EVALUATION, updated_at := sql_now w\<rparr>)
        \<or> (stage p = PROSECUTOR_EVALUATION
          \<and> advanced w p = p\<lparr>stage := CLINICAL_ELIGIBILITY, updated_at := sql_now w\<rparr>)
        \<or> (stage p = CLINICAL_ELIGIBILITY
          \<and> advanced w p = p\<lparr>stage := INTERVENTION_PLAN, updated_at := sql_now w\<rparr>)
        \<or> (stage p = INTERVENTION_PLAN
          \<and> advanced w p = p\<lparr>stage := HEARING_FOLLOWUPS, updated_at := sql_now w\<rparr>)
        \<or> (stage p = HEARING_FOLLOWUPS
          \<and> advanced w p = p\<lparr>stage := PROGRAM_OUTCOME, updated_at := sql_now w,
                                completed_at := Some (date_now w),
                                outcome := Some ''completed''\<rparr>)"
    using s advanced_referral [of p w] advanced_prosecutor_evaluation [of p w]
      advanced_clinical_eligibility [of p w] advanced_intervention_plan [of p w]
      advanced_hearing_followups [of p w]
    by (cases "enrolled_at p = None") presburger+
  then show ?thesis
    using advanceStage_cases [OF g ok] by blast
qed

theorem advanceStage_side_effects_witness:
  "getById ''p-1'' admin_user (db_of referral_participant) = Inr referral_participant
   \<and> advanceStage ''p-1'' admin_user (tick 1) (db_of referral_participant)
       = (Inr (Some pe_participant), db_of pe_participant)
   \<and> stage referral_participant = REFERRAL
   \<and> enrolled_at referral_participant = None
   \<and> advanced (tick 1) referral_participant = pe_participant
   \<and> pe_participant =
       referral_participant\<lparr>stage := PROSECUTOR_EVALUATION, updated_at := sql_now (tick 1),
                             enrolled_at := Some (date_now (tick 1))\<rparr>"
  using advanceStage_side_effects [of "''p-1''" admin_user "db_of referral_participant"
      referral_participant "tick 1" "Some pe_participant" "db_of pe_participant"]
    getById_db_of [of referral_participant "''p-1''" admin_user]
    advance_referral_participant
  by (simp add: referral_participant_def pe_participant_def tick_def REFERRAL_def
      PROSECUTOR_EVALUATION_def)

text \<open>
  C6, as stated, says that the other transitions change the stage field only. The move
  from \<open>prosecutor_evaluation\<close> to \<open>clinical_eligibility\<close> also rewrites \<open>updated_at\<close>: the
  row returned is not the old row with just its stage replaced.
\<close>

theorem advanceStage_touches_updated_at:
  "getById ''p-1'' admin_user (db_of pe_participant) = Inr pe_participant
   \<and> stage pe_participant = PROSECUTOR_EVALUATION
   \<and> fst (advanceStage ''p-1'' admin_user (tick 2) (db_of pe_participant))
       = Inr (Some (pe_participant\<lparr>stage := CLINICAL_ELIGIBILITY, updated_at := 21\<rparr>))
   \<and> fst (advanceStage ''p-1'' admin_user (tick 2) (db_of pe_participant))
       \<noteq> Inr (Some (pe_participant\<lparr>stage := CLINICAL_ELIGIBILITY\<rparr>))"
  using getById_db_of [of pe_participant "''p-1''" admin_user] advance_pe_participant
  by (simp add: pe_participant_def referral_participant_def PROSECUTOR_EVALUATION_def
      CLINICAL_ELIGIBILITY_def)

text \<open>
  C2, as amended. From a participant at stage \<open>referral\<close>, five calls of
  \<^verbatim>\<open>advanceStage\<close> in a row succeed; after them the participant is at \<open>program_outcome\<close>
  with outcome \<open>completed\<close> and \<open>completed_at\<close> set at the fifth call; and the sixth call
  throws "Cannot advance beyond the final stage".
\<close>

theorem five_advances_complete_the_program:
  assumes g: "getById i user db = Inr p"
    and s: "stage p = REFERRAL"
  shows "\<exists>p1 p2 p3 p4 p5.
      fst (advance_all i user [w1, w2, w3, w4, w5, w6] db) =
        [Inr (Some p1), Inr (Some p2), Inr (Some p3), Inr (Some p4), Inr (Some p5),
         Inl \<lparr>message = ''Cannot advance beyond the final stage'',
               statusCode = 400, err_reasons = None\<rparr>]
      \<and> getById i user (snd (advance_all i user [w1, w2, w3, w4, w5, w6] db)) = Inr p5
      \<and> stage p5 = PROGRAM_OUTCOME
      \<and> outcome p5 = Some ''completed''
      \<and> completed_at p5 = Some (date_now w5)"
  using advance_all_from_referral(1,2) [OF g s, of w1 w2 w3 w4 w5 w6]
    advance_all_from_referral(3,4,5) [OF g s, of w1 w2 w3 w4 w5]
  by blast

theorem five_advances_complete_the_program_witness:
  "getById ''p-1'' admin_user (db_of referral_participant) = Inr referral_participant
   \<and> stage referral_participant = REFERRAL
   \<and> (\<exists>p1 p2 p3 p4 p5.
        fst (advance_all ''p-1'' admin_user [tick 1, tick 2, tick 3, tick 4, tick 5, tick 6]
              (db_of referral_participant)) =
          [Inr (Some p1), Inr (Some p2), Inr (Some p3), Inr (Some p4), Inr (Some p5),
           Inl \<lparr>message = ''Cannot advance beyond the final stage'',
                 statusCode = 400, err_reasons = None\<rparr>]
        \<and> getById ''p-1'' admin_user
            (snd (advance_all ''p-1'' admin_user [tick 1, tick 2, tick 3, tick 4, tick 5, tick 6]
                   (db_of referral_participant))) = Inr p5
        \<and> stage p5 = PROGRAM_OUTCOME
        \<and> outcome p5 = Some ''completed''
        \<and> completed_at p5 = Some (date_now (tick 5)))"
  using five_advances_complete_the_program [OF referral_participant_facts,
      of "tick 1" "tick 2" "tick 3" "tick 4" "tick 5" "tick 6"]
    referral_participant_facts
  by blast

text \<open>
  C2, as stated, asks for six successful calls from \<open>referral\<close>. The sequence has six
  stages, hence five steps: the sixth call already throws.
\<close>

theorem sixth_advance_from_referral_fails:
  "getById ''p-1'' admin_user (db_of referral_participant) = Inr referral_participant
   \<and> stage referral_participant = REFERRAL
   \<and> fst (advance_all ''p-1'' admin_user [tick 1, tick 2, tick 3, tick 4, tick 5, tick 6]
            (db_of referral_participant)) ! 5 =
       Inl \<lparr>message = ''Cannot advance beyond the final stage'',
             statusCode = 400, err_reasons = None\<rparr>"
  unfolding advance_all_from_referral(1) [OF referral_participant_facts]
  using referral_participant_facts by simp

text \<open>
  C1. \<^verbatim>\<open>withdraw\<close> and \<^verbatim>\<open>revokeVictimConsent\<close> refuse a participant whose outcome is set,
  but \<^verbatim>\<open>advanceStage\<close> never reads the outcome. After a withdrawal at stage \<open>referral\<close>
  the next \<^verbatim>\<open>advanceStage\<close> succeeds and moves the withdrawn participant to
  \<open>prosecutor_evaluation\<close>; advanced to the end, the outcome \<open>withdrawn\<close> is overwritten
  with \<open>completed\<close>.
\<close>

theorem advanceStage_ignores_final_outcome:
  "withdraw ''p-1'' (JStr ''moved away'') admin_user (tick 3) (db_of referral_participant)
     = (Inr (Some withdrawn_participant), db_of withdrawn_participant)
   \<and> outcome withdrawn_participant = Some ''withdrawn''
   \<and> advanceStage ''p-1'' admin_user (tick 4) (db_of withdrawn_participant)
     = (Inr (Some (withdrawn_participant
                     \<lparr>stage := ''prosecutor_evaluation'', updated_at := 41,
                      enrolled_at := Some 40\<rparr>)),
        db_of (withdrawn_participant
                 \<lparr>stage := ''prosecutor_evaluation'', updated_at := 41,
                  enrolled_at := Some 40\<rparr>))
   \<and> getById ''p-1'' admin_user
       (snd (advance_all ''p-1'' admin_user [tick 4, tick 5, tick 6, tick 7, tick 8, tick 9]
              (db_of withdrawn_participant)))
     = Inr (fold advanced [tick 4, tick 5, tick 6, tick 7, tick 8] withdrawn_participant)
   \<and> outcome (fold advanced [tick 4, tick 5, tick 6, tick 7, tick 8] withdrawn_participant)
     = Some ''completed''"
  using withdraw_referral_participant [of "JStr ''moved away''"]
    advance_withdrawn_participant
    advance_all_from_referral(2) [OF withdrawn_participant_facts,
      of "tick 4" "tick 5" "tick 6" "tick 7" "tick 8" "tick 9"]
    advance_all_from_referral(4) [OF withdrawn_participant_facts,
      of "tick 4" "tick 5" "tick 6" "tick 7" "tick 8"]
  by (simp add: withdrawn_participant_def)

end
